theory Spec2Isabelle
  imports Complex_Main
begin

section \<open>Python values shared by all modules\<close>

text \<open>
  Exceptions are values. Only subclasses of Python's \<open>Exception\<close> are modelled, which is
  what every \<open>except Exception\<close> clause of the program catches;
  \<open>ConnectionClosed\<close> is \<open>websockets.ConnectionClosed\<close>, the one class the receive
  loop treats separately.
\<close>

datatype exn =
    ConnectionClosed
  | IndexError string
  | ValueError string
  | TypeError string
  | KeyError string
  | AttributeError string
  | JSONDecodeError string
  | OverflowError string
  | OtherException string

fun exn_str :: "exn \<Rightarrow> string" where
  "exn_str ConnectionClosed = ''connection closed''"
| "exn_str (IndexError s) = s"
| "exn_str (ValueError s) = s"
| "exn_str (TypeError s) = s"
| "exn_str (KeyError s) = CHR 0x27 # s @ [CHR 0x27]"
| "exn_str (AttributeError s) = s"
| "exn_str (JSONDecodeError s) = s"
| "exn_str (OverflowError s) = s"
| "exn_str (OtherException s) = s"

text \<open>A call to \<open>self.logger\<close> appends one entry to the log.\<close>

datatype log_entry = LogError string | LogWarning string | LogInfo string

subsection \<open>Floating-point numbers\<close>

text \<open>
  A float64 is a real number or one of the three special values. Finite arithmetic is
  exact (no rounding, no overflow) and zero carries no sign, so a finite non-zero number
  divided by zero takes the sign of the numerator. Every operand that reaches a division
  in the models is a numpy scalar, so division by zero yields a special value and raises
  nothing.
\<close>

datatype fl = Fin real | PInf | NInf | NaN

fun fl_neg :: "fl \<Rightarrow> fl" where
  "fl_neg (Fin a) = Fin (- a)"
| "fl_neg PInf = NInf"
| "fl_neg NInf = PInf"
| "fl_neg NaN = NaN"

fun fl_add :: "fl \<Rightarrow> fl \<Rightarrow> fl" where
  "fl_add (Fin a) (Fin b) = Fin (a + b)"
| "fl_add NaN _ = NaN"
| "fl_add _ NaN = NaN"
| "fl_add PInf NInf = NaN"
| "fl_add NInf PInf = NaN"
| "fl_add PInf _ = PInf"
| "fl_add _ PInf = PInf"
| "fl_add NInf _ = NInf"
| "fl_add _ NInf = NInf"

definition fl_sub :: "fl \<Rightarrow> fl \<Rightarrow> fl" where
  "fl_sub a b = fl_add a (fl_neg b)"

fun fl_sign :: "fl \<Rightarrow> real" where
  "fl_sign (Fin a) = sgn a"
| "fl_sign PInf = 1"
| "fl_sign NInf = - 1"
| "fl_sign NaN = 0"

definition fl_inf :: "real \<Rightarrow> fl" where
  "fl_inf s = (if 0 < s then PInf else if s < 0 then NInf else NaN)"

fun fl_mul :: "fl \<Rightarrow> fl \<Rightarrow> fl" where
  "fl_mul (Fin a) (Fin b) = Fin (a * b)"
| "fl_mul NaN _ = NaN"
| "fl_mul _ NaN = NaN"
| "fl_mul a b = fl_inf (fl_sign a * fl_sign b)"

fun fl_div :: "fl \<Rightarrow> fl \<Rightarrow> fl" where
  "fl_div (Fin a) (Fin b) = (if b = 0 then fl_inf (sgn a) else Fin (a / b))"
| "fl_div NaN _ = NaN"
| "fl_div _ NaN = NaN"
| "fl_div (Fin a) _ = Fin 0"
| "fl_div a (Fin b) = fl_inf (fl_sign a * (if b < 0 then - 1 else 1))"
| "fl_div _ _ = NaN"

fun fl_lt :: "fl \<Rightarrow> fl \<Rightarrow> bool" where
  "fl_lt (Fin a) (Fin b) = (a < b)"
| "fl_lt NaN _ = False"
| "fl_lt _ NaN = False"
| "fl_lt NInf NInf = False"
| "fl_lt NInf _ = True"
| "fl_lt _ NInf = False"
| "fl_lt PInf _ = False"
| "fl_lt _ PInf = True"

text \<open>
  Python's builtins: \<open>max(a, b)\<close> is \<open>b\<close> when \<open>b > a\<close> and \<open>a\<close> otherwise,
  \<open>min(a, b)\<close> is \<open>b\<close> when \<open>b < a\<close> and \<open>a\<close> otherwise; a comparison with NaN is
  false, so the first argument wins.
\<close>

definition py_max :: "fl \<Rightarrow> fl \<Rightarrow> fl" where
  "py_max a b = (if fl_lt a b then b else a)"

definition py_min :: "fl \<Rightarrow> fl \<Rightarrow> fl" where
  "py_min a b = (if fl_lt b a then b else a)"

fun py_abs :: "fl \<Rightarrow> fl" where
  "py_abs (Fin a) = Fin \<bar>a\<bar>"
| "py_abs PInf = PInf"
| "py_abs NInf = PInf"
| "py_abs NaN = NaN"

fun np_sqrt :: "fl \<Rightarrow> fl" where
  "np_sqrt (Fin a) = (if a < 0 then NaN else Fin (sqrt a))"
| "np_sqrt PInf = PInf"
| "np_sqrt NInf = NaN"
| "np_sqrt NaN = NaN"

fun np_log10 :: "fl \<Rightarrow> fl" where
  "np_log10 (Fin a) = (if a < 0 then NaN else if a = 0 then NInf else Fin (log 10 a))"
| "np_log10 PInf = PInf"
| "np_log10 NInf = NaN"
| "np_log10 NaN = NaN"

definition np_sum :: "fl list \<Rightarrow> fl" where
  "np_sum xs = foldl fl_add (Fin 0) xs"

definition np_mean :: "fl list \<Rightarrow> fl" where
  "np_mean xs = fl_div (np_sum xs) (Fin (real (length xs)))"

subsection \<open>Order books as numpy arrays\<close>

text \<open>
  An order book holds \<open>asks\<close> and \<open>bids\<close>, each a list of \<open>[price, quantity]\<close> pairs.
  \<open>np.array\<close> of a non-empty list of pairs is a two-dimensional array; of the empty list
  it is a one-dimensional empty array, on which both \<open>a[0]\<close> and \<open>a[:, k]\<close> raise
  IndexError.
\<close>

record orderbook =
  asks :: "(fl \<times> fl) list"
  bids :: "(fl \<times> fl) list"

definition np_item00 :: "(fl \<times> fl) list \<Rightarrow> exn + fl" where
  "np_item00 a = (case a of
       [] \<Rightarrow> Inl (IndexError ''index 0 is out of bounds for axis 0 with size 0'')
     | (p, q) # _ \<Rightarrow> Inr p)"

definition np_col0 :: "(fl \<times> fl) list \<Rightarrow> exn + fl list" where
  "np_col0 a = (if a = [] then Inl (IndexError ''too many indices for array'')
     else Inr (map fst a))"

definition np_col1 :: "(fl \<times> fl) list \<Rightarrow> exn + fl list" where
  "np_col1 a = (if a = [] then Inl (IndexError ''too many indices for array'')
     else Inr (map snd a))"

text \<open>
  Element-wise arithmetic on one-dimensional arrays broadcasts: equal lengths pair up,
  an array of length one is stretched to the other's length, anything else raises
  ValueError.
\<close>

definition np_broadcast :: "(fl \<Rightarrow> fl \<Rightarrow> fl) \<Rightarrow> fl list \<Rightarrow> fl list \<Rightarrow> exn + fl list" where
  "np_broadcast f xs ys =
     (if length xs = length ys then Inr (map2 f xs ys)
      else if length xs = 1 then Inr (map (f (hd xs)) ys)
      else if length ys = 1 then Inr (map (\<lambda>x. f x (hd ys)) xs)
      else Inl (ValueError ''operands could not be broadcast together''))"

text \<open>
  Sequencing of statements that may raise: the first exception ends the computation.
\<close>

fun bind_exn :: "exn + 'a \<Rightarrow> ('a \<Rightarrow> exn + 'b) \<Rightarrow> exn + 'b" where
  "bind_exn (Inl e) f = Inl e"
| "bind_exn (Inr x) f = f x"

text \<open>\<open>np.sum(a[:, 1] * a[:, 0])\<close>: the notional value resting on one side of the book.\<close>

definition side_depth :: "(fl \<times> fl) list \<Rightarrow> exn + fl" where
  "side_depth a =
     bind_exn (np_col1 a) (\<lambda>qs.
     bind_exn (np_col0 a) (\<lambda>ps.
     bind_exn (np_broadcast fl_mul qs ps) (\<lambda>v.
     Inr (np_sum v))))"

section \<open>The slippage model (src/models/slippage.py)\<close>

text \<open>
  The fitted scikit-learn objects are kept as the functions their methods compute:
  \<open>scaler.transform\<close> on one feature row and \<open>model.predict\<close> on one scaled row.
\<close>

record slippage_model =
  sl_is_trained :: bool
  sl_scaler_transform :: "fl list \<Rightarrow> exn + fl list"
  sl_model_predict :: "fl list \<Rightarrow> exn + fl"

definition SlippageModel_extract_features :: "'a orderbook_scheme \<Rightarrow> fl \<Rightarrow> exn + fl list" where
  "SlippageModel_extract_features ob quantity =
     bind_exn (np_item00 (asks ob)) (\<lambda>a00.
     bind_exn (np_item00 (bids ob)) (\<lambda>b00.
     let mid_price = fl_div (fl_add a00 b00) (Fin 2);
         spread = fl_sub a00 b00;
         spread_percentage = fl_mul (fl_div spread mid_price) (Fin 100)
     in
     bind_exn (side_depth (asks ob)) (\<lambda>ask_depth.
     bind_exn (side_depth (bids ob)) (\<lambda>bid_depth.
     let total_depth = fl_add ask_depth bid_depth;
         depth_imbalance = fl_div (py_abs (fl_sub ask_depth bid_depth)) total_depth;
         price_levels = Fin (real (length (asks ob)));
         quantity_ratio = fl_div quantity total_depth
     in Inr [spread_percentage, depth_imbalance, price_levels, quantity_ratio,
             np_log10 quantity]))))"

definition SlippageModel_calculate_heuristic_slippage ::
  "'a orderbook_scheme \<Rightarrow> fl \<Rightarrow> exn + fl" where
  "SlippageModel_calculate_heuristic_slippage ob quantity =
     bind_exn (np_item00 (asks ob)) (\<lambda>a00.
     bind_exn (np_item00 (bids ob)) (\<lambda>b00.
     let mid_price = fl_div (fl_add a00 b00) (Fin 2);
         spread = fl_sub a00 b00;
         spread_percentage = fl_mul (fl_div spread mid_price) (Fin 100)
     in
     bind_exn (side_depth (asks ob)) (\<lambda>ask_depth.
     bind_exn (side_depth (bids ob)) (\<lambda>bid_depth.
     let total_depth = fl_add ask_depth bid_depth;
         quantity_impact = fl_mul (fl_div quantity total_depth) (Fin 100);
         slippage = fl_add (fl_mul spread_percentage (Fin (1/2)))
                           (fl_mul quantity_impact (Fin (1/2)))
     in Inr slippage))))"

text \<open>The body of \<open>calculate\<close>'s \<open>try\<close> block.\<close>

definition SlippageModel_calculate_try ::
  "slippage_model \<Rightarrow> 'a orderbook_scheme \<Rightarrow> fl \<Rightarrow> exn + fl" where
  "SlippageModel_calculate_try m ob quantity =
     bind_exn (SlippageModel_extract_features ob quantity) (\<lambda>features.
     if \<not> sl_is_trained m then SlippageModel_calculate_heuristic_slippage ob quantity
     else
       bind_exn (sl_scaler_transform m features) (\<lambda>scaled_features.
       bind_exn (sl_model_predict m scaled_features) (\<lambda>slippage.
       Inr (py_max (Fin 0) slippage))))"

text \<open>
  \<open>calculate\<close>: the \<open>try\<close> block under its \<open>except Exception\<close> handler, which logs and
  returns \<open>0.0\<close>. The result keeps the exception channel, so that "does not raise" is a
  property to prove.
\<close>

definition SlippageModel_calculate ::
  "slippage_model \<Rightarrow> 'a orderbook_scheme \<Rightarrow> fl \<Rightarrow> log_entry list \<times> (exn + fl)" where
  "SlippageModel_calculate m ob quantity =
     (case SlippageModel_calculate_try m ob quantity of
        Inr v \<Rightarrow> ([], Inr v)
      | Inl e \<Rightarrow> ([LogError (''Error calculating slippage: '' @ exn_str e)], Inr (Fin 0)))"





section \<open>The market impact model (src/models/market_impact.py)\<close>

definition MarketImpactModel_calculate_temporary_impact ::
  "(fl \<times> fl) list \<Rightarrow> (fl \<times> fl) list \<Rightarrow> fl \<Rightarrow> exn + fl" where
  "MarketImpactModel_calculate_temporary_impact a b quantity =
     bind_exn (np_col0 a) (\<lambda>ask_prices.
     bind_exn (np_col0 b) (\<lambda>bid_prices.
     bind_exn (np_broadcast fl_sub ask_prices bid_prices) (\<lambda>diffs.
     let spread = np_mean diffs in
     bind_exn (np_col1 a) (\<lambda>ask_qtys.
     bind_exn (np_col1 b) (\<lambda>bid_qtys.
     let avg_depth = np_mean (ask_qtys @ bid_qtys)
     in Inr (fl_mul (Fin (1/10)) (fl_div spread avg_depth)))))))"

definition MarketImpactModel_calculate_permanent_impact ::
  "(fl \<times> fl) list \<Rightarrow> (fl \<times> fl) list \<Rightarrow> fl \<Rightarrow> exn + fl" where
  "MarketImpactModel_calculate_permanent_impact a b quantity =
     (let price_levels = Fin (real (length a))
      in Inr (fl_div (Fin (5/100)) (np_sqrt price_levels)))"

definition MarketImpactModel_calculate_optimal_time :: "fl \<Rightarrow> fl \<Rightarrow> fl" where
  "MarketImpactModel_calculate_optimal_time quantity volatility =
     (let base_time = Fin 300;
          quantity_factor = fl_div (np_log10 quantity) (Fin 3);
          volatility_factor = fl_mul volatility (Fin 2)
      in fl_mul base_time (fl_add (fl_add (Fin 1) quantity_factor) volatility_factor))"

definition MarketImpactModel_calculate_try :: "'a orderbook_scheme \<Rightarrow> fl \<Rightarrow> fl \<Rightarrow> exn + fl" where
  "MarketImpactModel_calculate_try ob quantity volatility =
     bind_exn (np_item00 (asks ob)) (\<lambda>a00.
     bind_exn (np_item00 (bids ob)) (\<lambda>b00.
     let mid_price = fl_div (fl_add a00 b00) (Fin 2) in
     bind_exn (MarketImpactModel_calculate_temporary_impact (asks ob) (bids ob) quantity) (\<lambda>eta.
     bind_exn (MarketImpactModel_calculate_permanent_impact (asks ob) (bids ob) quantity) (\<lambda>gamma.
     let lambda_param = fl_mul (Fin (1/10)) (fl_add (Fin 1) volatility);
         T = MarketImpactModel_calculate_optimal_time quantity volatility;
         temporary_impact = fl_mul eta (fl_div quantity T);
         permanent_impact = fl_mul gamma quantity;
         risk_term = fl_mul (fl_mul lambda_param volatility) (np_sqrt T);
         total_impact = fl_add (fl_add temporary_impact permanent_impact) risk_term;
         impact_percentage = fl_mul (fl_div total_impact quantity) (Fin 100)
     in Inr impact_percentage))))"

definition MarketImpactModel_calculate ::
  "'a orderbook_scheme \<Rightarrow> fl \<Rightarrow> fl \<Rightarrow> log_entry list \<times> (exn + fl)" where
  "MarketImpactModel_calculate ob quantity volatility =
     (case MarketImpactModel_calculate_try ob quantity volatility of
        Inr v \<Rightarrow> ([], Inr v)
      | Inl e \<Rightarrow> ([LogError (''Error calculating market impact: '' @ exn_str e)], Inr (Fin 0)))"

section \<open>The maker/taker model (src/models/maker_taker.py)\<close>

record maker_taker_model =
  mt_is_trained :: bool
  mt_scaler_transform :: "fl list \<Rightarrow> exn + fl list"
  mt_model_predict_proba :: "fl list \<Rightarrow> exn + fl list"

text \<open>The returned dictionary \<open>{"maker": ..., "taker": ...}\<close>.\<close>

record proportions =
  maker :: fl
  taker :: fl

definition np_item :: "fl list \<Rightarrow> nat \<Rightarrow> exn + fl" where
  "np_item a i = (if i < length a then Inr (a ! i)
     else Inl (IndexError ''index is out of bounds for axis 0''))"

definition MakerTakerModel_extract_features :: "'a orderbook_scheme \<Rightarrow> fl \<Rightarrow> exn + fl list" where
  "MakerTakerModel_extract_features ob quantity =
     bind_exn (np_item00 (asks ob)) (\<lambda>a00.
     bind_exn (np_item00 (bids ob)) (\<lambda>b00.
     let mid_price = fl_div (fl_add a00 b00) (Fin 2);
         spread = fl_sub a00 b00;
         spread_percentage = fl_mul (fl_div spread mid_price) (Fin 100)
     in
     bind_exn (side_depth (asks ob)) (\<lambda>ask_depth.
     bind_exn (side_depth (bids ob)) (\<lambda>bid_depth.
     let total_depth = fl_add ask_depth bid_depth;
         depth_imbalance = fl_div (fl_sub ask_depth bid_depth) total_depth;
         price_levels = Fin (real (length (asks ob)));
         quantity_ratio = fl_div quantity total_depth;
         pressure = fl_div (fl_sub ask_depth bid_depth) (fl_add ask_depth bid_depth)
     in Inr [spread_percentage, depth_imbalance, price_levels, quantity_ratio, pressure,
             np_log10 quantity]))))"

definition MakerTakerModel_calculate_heuristic_proportions ::
  "'a orderbook_scheme \<Rightarrow> fl \<Rightarrow> exn + proportions" where
  "MakerTakerModel_calculate_heuristic_proportions ob quantity =
     bind_exn (np_item00 (asks ob)) (\<lambda>a00.
     bind_exn (np_item00 (bids ob)) (\<lambda>b00.
     let spread = fl_sub a00 b00;
         mid_price = fl_div (fl_add a00 b00) (Fin 2);
         spread_percentage = fl_mul (fl_div spread mid_price) (Fin 100)
     in
     bind_exn (side_depth (asks ob)) (\<lambda>ask_depth.
     bind_exn (side_depth (bids ob)) (\<lambda>bid_depth.
     let total_depth = fl_add ask_depth bid_depth;
         quantity_ratio = fl_div quantity total_depth;
         maker_prob0 = fl_sub (fl_add (Fin 50) (fl_mul spread_percentage (Fin 2)))
                              (fl_mul quantity_ratio (Fin 100));
         maker_prob = py_max (Fin 0) (py_min (Fin 100) maker_prob0);
         taker_prob = fl_sub (Fin 100) maker_prob
     in Inr \<lparr>maker = maker_prob, taker = taker_prob\<rparr>))))"

definition MakerTakerModel_calculate_try ::
  "maker_taker_model \<Rightarrow> 'a orderbook_scheme \<Rightarrow> fl \<Rightarrow> exn + proportions" where
  "MakerTakerModel_calculate_try m ob quantity =
     bind_exn (MakerTakerModel_extract_features ob quantity) (\<lambda>features.
     if \<not> mt_is_trained m then MakerTakerModel_calculate_heuristic_proportions ob quantity
     else
       bind_exn (mt_scaler_transform m features) (\<lambda>scaled_features.
       bind_exn (mt_model_predict_proba m scaled_features) (\<lambda>probabilities.
       bind_exn (np_item probabilities 0) (\<lambda>p0.
       bind_exn (np_item probabilities 1) (\<lambda>p1.
       Inr \<lparr>maker = fl_mul p0 (Fin 100), taker = fl_mul p1 (Fin 100)\<rparr>)))))"

definition MakerTakerModel_calculate ::
  "maker_taker_model \<Rightarrow> 'a orderbook_scheme \<Rightarrow> fl \<Rightarrow> log_entry list \<times> (exn + proportions)" where
  "MakerTakerModel_calculate m ob quantity =
     (case MakerTakerModel_calculate_try m ob quantity of
        Inr v \<Rightarrow> ([], Inr v)
      | Inl e \<Rightarrow>
          ([LogError (''Error calculating maker/taker proportions: '' @ exn_str e)],
           Inr \<lparr>maker = Fin 50, taker = Fin 50\<rparr>))"

record maker_taker_sample =
  mt_orderbook :: orderbook
  mt_quantity :: fl
  mt_execution_type :: int

fun MakerTakerModel_train_collect ::
  "maker_taker_sample list \<Rightarrow> exn + (fl list list \<times> int list)" where
  "MakerTakerModel_train_collect [] = Inr ([], [])"
| "MakerTakerModel_train_collect (d # ds) =
     bind_exn (MakerTakerModel_extract_features (mt_orderbook d) (mt_quantity d)) (\<lambda>features.
     bind_exn (MakerTakerModel_train_collect ds) (\<lambda>(X, y).
     Inr (features # X, mt_execution_type d # y)))"

definition MakerTakerModel_train_try ::
  "(fl list list \<Rightarrow> exn + ((fl list \<Rightarrow> exn + fl list) \<times> fl list list)) \<Rightarrow>
   (fl list list \<Rightarrow> int list \<Rightarrow> exn + (fl list \<Rightarrow> exn + fl list)) \<Rightarrow>
   maker_taker_model \<Rightarrow> maker_taker_sample list \<Rightarrow>
   (exn \<times> maker_taker_model) + maker_taker_model" where
  "MakerTakerModel_train_try fit_transform fit m historical_data =
     (if historical_data = [] then Inr m
      else case MakerTakerModel_train_collect historical_data of
          Inl e \<Rightarrow> Inl (e, m)
        | Inr (X, y) \<Rightarrow>
           (case fit_transform X of
              Inl e \<Rightarrow> Inl (e, m)
            | Inr (transform, X_scaled) \<Rightarrow>
               (case fit X_scaled y of
                  Inl e \<Rightarrow> Inl (e, m\<lparr>mt_scaler_transform := transform\<rparr>)
                | Inr predict_proba \<Rightarrow>
                    Inr (m\<lparr>mt_scaler_transform := transform,
                           mt_model_predict_proba := predict_proba,
                           mt_is_trained := True\<rparr>))))"

definition MakerTakerModel_train ::
  "(fl list list \<Rightarrow> exn + ((fl list \<Rightarrow> exn + fl list) \<times> fl list list)) \<Rightarrow>
   (fl list list \<Rightarrow> int list \<Rightarrow> exn + (fl list \<Rightarrow> exn + fl list)) \<Rightarrow>
   maker_taker_model \<Rightarrow> maker_taker_sample list \<Rightarrow>
   log_entry list \<times> (exn + maker_taker_model)" where
  "MakerTakerModel_train fit_transform fit m historical_data =
     (case MakerTakerModel_train_try fit_transform fit m historical_data of
        Inr m' \<Rightarrow> ([], Inr m')
      | Inl (e, m') \<Rightarrow>
          ([LogError (''Error training maker/taker model: '' @ exn_str e)],
           Inr (m'\<lparr>mt_is_trained := False\<rparr>)))"

section \<open>The streaming client (src/websocket/client.py)\<close>

subsection \<open>Decoded frames\<close>

text \<open>
  A Python \<open>str\<close> is a sequence of Unicode code points, and its length counts code
  points; \<open>py_str\<close> is a literal of the program as such a sequence.
\<close>

type_synonym pystr = "nat list"

definition py_str :: "string \<Rightarrow> pystr" where
  "py_str s = map of_char s"

text \<open>
  What \<open>json.loads\<close> returns. An object keeps its entries in order, with distinct keys.
\<close>

datatype json =
    JNull
  | JBool bool
  | JInt int
  | JFloat fl
  | JStr pystr
  | JArr "json list"
  | JObj "(pystr \<times> json) list"

text \<open>
  The three library functions the client calls are parameters: \<open>json.loads\<close>,
  \<open>float\<close> on a string and \<open>datetime.fromisoformat\<close>; \<open>None\<close> stands for the
  exception each raises on text it rejects. \<open>'t\<close> is the type of \<open>datetime\<close> values.
  The frame that \<open>json.loads\<close> receives is the text as the bytes of the wire.
\<close>

record 't pylib =
  json_loads :: "string \<Rightarrow> json option"
  str_to_float :: "pystr \<Rightarrow> fl option"
  fromisoformat :: "pystr \<Rightarrow> 't option"

text \<open>
  The processed message: the dictionary after \<open>_process_orderbook\<close> has replaced
  \<open>timestamp\<close>, \<open>asks\<close> and \<open>bids\<close>; \<open>extra\<close> holds every other entry unchanged.
\<close>

record 't snapshot = orderbook +
  timestamp :: 't
  extra :: "(pystr \<times> json) list"

definition is_substring :: "'a list \<Rightarrow> 'a list \<Rightarrow> bool" where
  "is_substring f s = list_ex (\<lambda>i. take (length f) (drop i s) = f) [0..<Suc (length s)]"

text \<open>\<open>field in data\<close>.\<close>

fun py_contains :: "json \<Rightarrow> pystr \<Rightarrow> exn + bool" where
  "py_contains (JObj kvs) f = Inr (f \<in> set (map fst kvs))"
| "py_contains (JArr xs) f = Inr (JStr f \<in> set xs)"
| "py_contains (JStr s) f = Inr (is_substring f s)"
| "py_contains _ f = Inl (TypeError ''argument is not iterable'')"

text \<open>\<open>data[key]\<close> for a string key.\<close>

fun py_getitem :: "json \<Rightarrow> string \<Rightarrow> exn + json" where
  "py_getitem (JObj kvs) k =
     (case map_of kvs (py_str k) of None \<Rightarrow> Inl (KeyError k) | Some v \<Rightarrow> Inr v)"
| "py_getitem (JArr xs) k = Inl (TypeError ''list indices must be integers or slices, not str'')"
| "py_getitem (JStr s) k = Inl (TypeError ''string indices must be integers, not str'')"
| "py_getitem _ k = Inl (TypeError ''object is not subscriptable'')"

text \<open>Iteration: a list yields its items, a string its characters, a dictionary its keys.\<close>

fun py_iter :: "json \<Rightarrow> exn + json list" where
  "py_iter (JArr xs) = Inr xs"
| "py_iter (JStr s) = Inr (map (\<lambda>c. JStr [c]) s)"
| "py_iter (JObj kvs) = Inr (map (\<lambda>kv. JStr (fst kv)) kvs)"
| "py_iter _ = Inl (TypeError ''object is not iterable'')"

text \<open>
  \<open>float(i)\<close> for an integer: the nearest float64, modelled by the exact value. An
  integer whose nearest float64 would lie beyond the largest finite one, that is of
  magnitude at least \<open>2^1024 - 2^970\<close>, raises OverflowError.
\<close>

definition int_to_float :: "int \<Rightarrow> exn + fl" where
  "int_to_float i =
     (if 2 ^ 1024 - 2 ^ 970 \<le> \<bar>i\<bar>
      then Inl (OverflowError ''int too large to convert to float'')
      else Inr (Fin (real_of_int i)))"

text \<open>\<open>float(x)\<close>.\<close>

fun py_float :: "(pystr \<Rightarrow> fl option) \<Rightarrow> json \<Rightarrow> exn + fl" where
  "py_float conv (JFloat x) = Inr x"
| "py_float conv (JInt i) = int_to_float i"
| "py_float conv (JBool b) = Inr (Fin (if b then 1 else 0))"
| "py_float conv (JStr s) =
     (case conv s of None \<Rightarrow> Inl (ValueError ''could not convert string to float'')
      | Some x \<Rightarrow> Inr x)"
| "py_float conv _ = Inl (TypeError ''float() argument must be a string or a real number'')"

text \<open>The target \<open>price, qty\<close> of the comprehension: the item must yield exactly two values.\<close>

definition unpack_pair :: "json \<Rightarrow> exn + (json \<times> json)" where
  "unpack_pair item =
     bind_exn (py_iter item) (\<lambda>vs.
       case vs of
         [price, qty] \<Rightarrow> Inr (price, qty)
       | _ \<Rightarrow> Inl (ValueError ''wrong number of values to unpack''))"

fun convert_items :: "(pystr \<Rightarrow> fl option) \<Rightarrow> json list \<Rightarrow> exn + (fl \<times> fl) list" where
  "convert_items conv [] = Inr []"
| "convert_items conv (item # items) =
     bind_exn (unpack_pair item) (\<lambda>(price, qty).
     bind_exn (py_float conv price) (\<lambda>p.
     bind_exn (py_float conv qty) (\<lambda>q.
     bind_exn (convert_items conv items) (\<lambda>rest.
     Inr ((p, q) # rest)))))"

text \<open>\<open>[[float(price), float(qty)] for price, qty in levels]\<close>.\<close>

definition convert_levels :: "(pystr \<Rightarrow> fl option) \<Rightarrow> json \<Rightarrow> exn + (fl \<times> fl) list" where
  "convert_levels conv levels = bind_exn (py_iter levels) (convert_items conv)"

definition required_fields :: "string list" where
  "required_fields = [''timestamp'', ''exchange'', ''symbol'', ''asks'', ''bids'']"

fun check_required :: "json \<Rightarrow> string list \<Rightarrow> exn + unit" where
  "check_required data [] = Inr ()"
| "check_required data (f # fs) =
     bind_exn (py_contains data (py_str f)) (\<lambda>present.
       if \<not> present then Inl (ValueError (''Missing required field: '' @ f))
       else check_required data fs)"

text \<open>\<open>s.replace("Z", "+00:00")\<close>.\<close>

definition replace_Z :: "pystr \<Rightarrow> pystr" where
  "replace_Z s = concat (map (\<lambda>c. if c = of_char CHR ''Z'' then py_str ''+00:00'' else [c]) s)"

definition parse_timestamp :: "'t pylib \<Rightarrow> json \<Rightarrow> exn + 't" where
  "parse_timestamp lib v =
     (case v of
        JStr s \<Rightarrow>
          (case fromisoformat lib (replace_Z s) of
             None \<Rightarrow> Inl (ValueError ''Invalid isoformat string'')
           | Some t \<Rightarrow> Inr t)
      | _ \<Rightarrow> Inl (AttributeError ''object has no attribute replace''))"

definition other_fields :: "json \<Rightarrow> (pystr \<times> json) list" where
  "other_fields data =
     (case data of
        JObj kvs \<Rightarrow>
          filter (\<lambda>kv. fst kv \<notin> {py_str ''timestamp'', py_str ''asks'', py_str ''bids''}) kvs
      | _ \<Rightarrow> [])"

text \<open>The body of \<open>_process_orderbook\<close>'s \<open>try\<close> block.\<close>

definition WebSocketClient_process_orderbook_try :: "'t pylib \<Rightarrow> json \<Rightarrow> exn + 't snapshot" where
  "WebSocketClient_process_orderbook_try lib data =
     bind_exn (check_required data required_fields) (\<lambda>_.
     bind_exn (py_getitem data ''timestamp'') (\<lambda>ts.
     bind_exn (parse_timestamp lib ts) (\<lambda>t.
     bind_exn (py_getitem data ''asks'') (\<lambda>raw_asks.
     bind_exn (convert_levels (str_to_float lib) raw_asks) (\<lambda>a.
     bind_exn (py_getitem data ''bids'') (\<lambda>raw_bids.
     bind_exn (convert_levels (str_to_float lib) raw_bids) (\<lambda>b.
     Inr \<lparr>asks = a, bids = b, timestamp = t, extra = other_fields data\<rparr>)))))))"

text \<open>\<open>_process_orderbook\<close>: on an exception it logs and raises the same exception again.\<close>

definition WebSocketClient_process_orderbook ::
  "'t pylib \<Rightarrow> json \<Rightarrow> log_entry list \<times> (exn + 't snapshot)" where
  "WebSocketClient_process_orderbook lib data =
     (case WebSocketClient_process_orderbook_try lib data of
        Inr s \<Rightarrow> ([], Inr s)
      | Inl e \<Rightarrow> ([LogError (''Error processing orderbook data: '' @ exn_str e)], Inl e))"

subsection \<open>Subscribers and the receive loop\<close>

text \<open>
  A subscriber is called with the snapshot and acts on a world \<open>'w\<close> outside the client;
  it returns the new world and the exception it raised, if any. What the client does is
  recorded as a trace of events: log entries, subscriber calls (by position in
  \<open>callbacks\<close>), sleeps and connection attempts.
\<close>

type_synonym ('w, 't) callback = "'t snapshot \<Rightarrow> 'w \<Rightarrow> 'w \<times> exn option"

record ('w, 't) client =
  callbacks :: "('w, 't) callback list"
  running :: bool

datatype 't event =
    Log log_entry
  | Invoke nat "'t snapshot"
  | Sleep nat
  | Connect

definition WebSocketClient_register_callback ::
  "('w, 't) client \<Rightarrow> ('w, 't) callback \<Rightarrow> ('w, 't) client" where
  "WebSocketClient_register_callback c callback = c\<lparr>callbacks := callbacks c @ [callback]\<rparr>"

text \<open>
  \<open>for callback in self.callbacks: await callback(processed_data)\<close>, from position \<open>i\<close>.
\<close>

fun notify_callbacks ::
  "('w, 't) callback list \<Rightarrow> nat \<Rightarrow> 't snapshot \<Rightarrow> 'w \<Rightarrow> 'w \<times> 't event list \<times> exn option" where
  "notify_callbacks [] i s w = (w, [], None)"
| "notify_callbacks (cb # cbs) i s w =
     (case cb s w of
        (w', Some e) \<Rightarrow> (w', [Invoke i s], Some e)
      | (w', None) \<Rightarrow>
          (case notify_callbacks cbs (Suc i) s w' of
             (w'', tr, r) \<Rightarrow> (w'', Invoke i s # tr, r)))"

text \<open>
  The environment answers each \<open>recv\<close> with a text frame or an exception, and each
  \<open>websockets.connect\<close> of a reconnection with success or an exception.
\<close>

datatype recv_result = Message string | RecvRaises exn

datatype connect_result = ConnectOk | ConnectRaises exn

text \<open>The body of the \<open>try\<close> block of one iteration of \<open>_process_messages\<close>.\<close>

definition process_message_try ::
  "'t pylib \<Rightarrow> ('w, 't) client \<Rightarrow> recv_result \<Rightarrow> 'w \<Rightarrow> 'w \<times> 't event list \<times> exn option" where
  "process_message_try lib c r w =
     (case r of
        RecvRaises e \<Rightarrow> (w, [], Some e)
      | Message message \<Rightarrow>
          (case json_loads lib message of
             None \<Rightarrow> (w, [], Some (JSONDecodeError ''invalid JSON''))
           | Some data \<Rightarrow>
               (case WebSocketClient_process_orderbook lib data of
                  (lg, Inl e) \<Rightarrow> (w, map Log lg, Some e)
                | (lg, Inr processed_data) \<Rightarrow>
                    (case notify_callbacks (callbacks c) 0 processed_data w of
                       (w', tr, r) \<Rightarrow> (w', map Log lg @ tr, r)))))"

fun str_nat :: "nat \<Rightarrow> string" where
  "str_nat n = (if n < 10 then [char_of (48 + n)]
     else str_nat (n div 10) @ [char_of (48 + n mod 10)])"

declare str_nat.simps [simp del]

datatype reconnect_status = Reconnected | NotRunning | AwaitingConnect

text \<open>
  The loop of \<open>_reconnect\<close> with the current \<open>retry_delay\<close>; \<open>max_retry_delay\<close> is 30.
  When the environment has no further answer the attempt is still pending.
\<close>

fun reconnect_loop ::
  "bool \<Rightarrow> nat \<Rightarrow> connect_result list \<Rightarrow> 't event list \<times> connect_result list \<times> reconnect_status" where
  "reconnect_loop run retry_delay [] =
     (if \<not> run then ([], [], NotRunning)
      else ([Log (LogInfo (''Attempting to reconnect in '' @ str_nat retry_delay @ '' seconds...'')),
             Sleep retry_delay, Connect], [], AwaitingConnect))"
| "reconnect_loop run retry_delay (a # answers) =
     (if \<not> run then ([], a # answers, NotRunning)
      else case a of
          ConnectOk \<Rightarrow>
            ([Log (LogInfo (''Attempting to reconnect in '' @ str_nat retry_delay @ '' seconds...'')),
              Sleep retry_delay, Connect,
              Log (LogInfo ''Successfully reconnected'')], answers, Reconnected)
        | ConnectRaises e \<Rightarrow>
            (case reconnect_loop run (min (retry_delay * 2) 30) answers of
               (tr, answers', st) \<Rightarrow>
                 ([Log (LogInfo (''Attempting to reconnect in '' @ str_nat retry_delay @ '' seconds...'')),
                   Sleep retry_delay, Connect,
                   Log (LogError (''Reconnection failed: '' @ exn_str e))] @ tr, answers', st)))"

definition WebSocketClient_reconnect ::
  "('w, 't) client \<Rightarrow> connect_result list \<Rightarrow> 't event list \<times> connect_result list \<times> reconnect_status" where
  "WebSocketClient_reconnect c answers = reconnect_loop (running c) 1 answers"

datatype loop_status = Stopped | AwaitingRecv | AwaitingReconnect

text \<open>
  \<open>_process_messages\<close> against the answers of the environment. The result is the world,
  the trace, the connection answers not yet used and where the loop stands: stopped
  because \<open>running\<close> is false, or waiting for the environment.
\<close>

fun WebSocketClient_process_messages ::
  "'t pylib \<Rightarrow> ('w, 't) client \<Rightarrow> recv_result list \<Rightarrow> connect_result list \<Rightarrow> 'w \<Rightarrow>
   'w \<times> 't event list \<times> connect_result list \<times> loop_status" where
  "WebSocketClient_process_messages lib c [] answers w =
     (if \<not> running c then (w, [], answers, Stopped) else (w, [], answers, AwaitingRecv))"
| "WebSocketClient_process_messages lib c (r # rs) answers w =
     (if \<not> running c then (w, [], answers, Stopped)
      else case process_message_try lib c r w of
          (w', tr, None) \<Rightarrow>
            (case WebSocketClient_process_messages lib c rs answers w' of
               (w'', tr', rest) \<Rightarrow> (w'', tr @ tr', rest))
        | (w', tr, Some ConnectionClosed) \<Rightarrow>
            (case WebSocketClient_reconnect c answers of
               (tr2, answers', st) \<Rightarrow>
                 if st = AwaitingConnect
                 then (w', tr @ [Log (LogWarning ''WebSocket connection closed'')] @ tr2,
                       answers', AwaitingReconnect)
                 else (case WebSocketClient_process_messages lib c rs answers' w' of
                         (w'', tr', rest) \<Rightarrow>
                           (w'', tr @ [Log (LogWarning ''WebSocket connection closed'')] @ tr2 @ tr',
                            rest)))
        | (w', tr, Some e) \<Rightarrow>
            (case WebSocketClient_process_messages lib c rs answers w' of
               (w'', tr', rest) \<Rightarrow>
                 (w'', tr @ [Log (LogError (''Error processing message: '' @ exn_str e))] @ tr',
                  rest)))"

section \<open>The cost aggregator (src/ui/main_window.py)\<close>

text \<open>
  The window holds the two trainable models, the three inputs the user edits and the
  output labels. A label is modelled by the number it shows, before formatting to two
  decimals; \<open>stdout\<close> collects what \<open>print\<close> writes and \<open>logged\<close> what the models log.
\<close>

record main_window =
  slippage_model :: slippage_model
  maker_taker_model :: maker_taker_model
  quantity_spin :: fl
  volatility_spin :: fl
  fee_tier_combo :: string
  slippage_label :: fl
  fees_label :: fl
  market_impact_label :: fl
  net_cost_label :: fl
  maker_taker_label :: "fl \<times> fl"
  latency_label :: fl
  stdout :: "string list"
  logged :: "log_entry list"

definition fee_tiers :: "(string \<times> real) list" where
  "fee_tiers = [(''Tier 1'', 1/1000), (''Tier 2'', 8/10000), (''Tier 3'', 6/10000)]"

definition MainWindow_calculate_fees :: "main_window \<Rightarrow> fl \<Rightarrow> exn + fl" where
  "MainWindow_calculate_fees win quantity =
     (let tier = fee_tier_combo win
      in case map_of fee_tiers tier of
           None \<Rightarrow> Inl (KeyError tier)
         | Some rate \<Rightarrow> Inr (fl_mul quantity (Fin rate)))"

text \<open>\<open>f"{data.get('processing_time', 0):.2f}"\<close>: only numbers take the format.\<close>

definition processing_time :: "'t snapshot \<Rightarrow> exn + fl" where
  "processing_time data =
     (case map_of (extra data) (py_str ''processing_time'') of
        None \<Rightarrow> Inr (Fin 0)
      | Some (JFloat x) \<Rightarrow> Inr x
      | Some (JInt i) \<Rightarrow> int_to_float i
      | Some (JBool b) \<Rightarrow> Inr (Fin (if b then 1 else 0))
      | Some (JStr s) \<Rightarrow> Inl (ValueError ''Unknown format code f for object of type str'')
      | Some _ \<Rightarrow> Inl (TypeError ''unsupported format string''))"

text \<open>
  The body of \<open>_on_orderbook_update\<close>'s \<open>try\<close> block: the window as the statements
  executed so far have left it, and the exception that ended the block, if any.
\<close>

definition MainWindow_on_orderbook_update_try ::
  "'t snapshot \<Rightarrow> main_window \<Rightarrow> main_window \<times> exn option" where
  "MainWindow_on_orderbook_update_try data win =
     (let quantity = quantity_spin win;
          volatility = fl_div (volatility_spin win) (Fin 100)
      in case SlippageModel_calculate (slippage_model win) data quantity of
           (lg1, Inl e) \<Rightarrow> (win\<lparr>logged := logged win @ lg1\<rparr>, Some e)
         | (lg1, Inr slippage) \<Rightarrow>
      let win1 = win\<lparr>logged := logged win @ lg1, slippage_label := slippage\<rparr>
      in case MainWindow_calculate_fees win1 quantity of
           Inl e \<Rightarrow> (win1, Some e)
         | Inr fees \<Rightarrow>
      let win2 = win1\<lparr>fees_label := fees\<rparr>
      in case MarketImpactModel_calculate data quantity volatility of
           (lg2, Inl e) \<Rightarrow> (win2\<lparr>logged := logged win2 @ lg2\<rparr>, Some e)
         | (lg2, Inr impact) \<Rightarrow>
      let win3 = win2\<lparr>logged := logged win2 @ lg2, market_impact_label := impact\<rparr>;
          net_cost = fl_add (fl_div (fl_mul (fl_add slippage impact) quantity) (Fin 100)) fees;
          win4 = win3\<lparr>net_cost_label := net_cost\<rparr>
      in case MakerTakerModel_calculate (maker_taker_model win4) data quantity of
           (lg3, Inl e) \<Rightarrow> (win4\<lparr>logged := logged win4 @ lg3\<rparr>, Some e)
         | (lg3, Inr mt) \<Rightarrow>
      let win5 = win4\<lparr>logged := logged win4 @ lg3, maker_taker_label := (maker mt, taker mt)\<rparr>
      in case processing_time data of
           Inl e \<Rightarrow> (win5, Some e)
         | Inr ms \<Rightarrow> (win5\<lparr>latency_label := ms\<rparr>, None))"

text \<open>
  \<open>_on_orderbook_update\<close>, the subscriber the window registers with the client: the
  handler prints the exception, so the call returns normally.
\<close>

definition MainWindow_on_orderbook_update :: "(main_window, 't) callback" where
  "MainWindow_on_orderbook_update data win =
     (case MainWindow_on_orderbook_update_try data win of
        (win', None) \<Rightarrow> (win', None)
      | (win', Some e) \<Rightarrow>
          (win'\<lparr>stdout := stdout win' @ [''Error updating UI: '' @ exn_str e]\<rparr>, None))"

section \<open>Freshly constructed models\<close>

text \<open>
  \<open>__init__\<close> of the two trainable models: \<open>is_trained\<close> is false and the scikit-learn
  objects are not fitted, so their methods raise \<open>NotFittedError\<close>.
\<close>

definition SlippageModel_init :: slippage_model where
  "SlippageModel_init =
     \<lparr>sl_is_trained = False,
      sl_scaler_transform = (\<lambda>x. Inl (OtherException ''NotFittedError'')),
      sl_model_predict = (\<lambda>x. Inl (OtherException ''NotFittedError''))\<rparr>"

definition MakerTakerModel_init :: maker_taker_model where
  "MakerTakerModel_init =
     \<lparr>mt_is_trained = False,
      mt_scaler_transform = (\<lambda>x. Inl (OtherException ''NotFittedError'')),
      mt_model_predict_proba = (\<lambda>x. Inl (OtherException ''NotFittedError''))\<rparr>"

section \<open>The formula of the specification for market impact\<close>

text \<open>
  The specification's words, to be compared with \<open>MarketImpactModel_calculate\<close>:
  \<open>eta = 0.1 \<times> mean(ask_price \<minus> bid_price over levels) / mean(depth over levels)\<close>,
  \<open>gamma = 0.05 / sqrt(price_levels)\<close>, \<open>lambda = 0.1 \<times> (1 + volatility)\<close>,
  \<open>T = 300 \<times> (1 + log10(quantity)/3 + volatility \<times> 2)\<close> and the result
  \<open>(eta \<times> quantity / T + gamma \<times> quantity + lambda \<times> volatility \<times> sqrt(T)) / quantity \<times> 100\<close>.
  Levels are paired by position, the depth of a level is its quantity, and
  \<open>price_levels\<close> counts the ask levels.
\<close>

definition spec_eta :: "'a orderbook_scheme \<Rightarrow> fl" where
  "spec_eta ob =
     fl_mul (Fin (1/10))
       (fl_div (np_mean (map2 fl_sub (map fst (asks ob)) (map fst (bids ob))))
               (np_mean (map snd (asks ob) @ map snd (bids ob))))"

definition spec_gamma :: "'a orderbook_scheme \<Rightarrow> fl" where
  "spec_gamma ob = fl_div (Fin (5/100)) (np_sqrt (Fin (real (length (asks ob)))))"

definition spec_lambda :: "fl \<Rightarrow> fl" where
  "spec_lambda volatility = fl_mul (Fin (1/10)) (fl_add (Fin 1) volatility)"

definition spec_T :: "fl \<Rightarrow> fl \<Rightarrow> fl" where
  "spec_T quantity volatility =
     fl_mul (Fin 300)
       (fl_add (fl_add (Fin 1) (fl_div (np_log10 quantity) (Fin 3))) (fl_mul volatility (Fin 2)))"

definition spec_market_impact :: "'a orderbook_scheme \<Rightarrow> fl \<Rightarrow> fl \<Rightarrow> fl" where
  "spec_market_impact ob quantity volatility =
     (let eta = spec_eta ob; gamma = spec_gamma ob; lam = spec_lambda volatility;
          T = spec_T quantity volatility;
          impact = fl_add (fl_add (fl_div (fl_mul eta quantity) T) (fl_mul gamma quantity))
                          (fl_mul (fl_mul lam volatility) (np_sqrt T))
      in fl_mul (fl_div impact quantity) (Fin 100))"

text \<open>
  The same formula when one side has a single level and numpy stretches its price over the
  other side: the spread is the mean of the differences against that single price.
\<close>

definition broadcast_eta :: "'a orderbook_scheme \<Rightarrow> fl" where
  "broadcast_eta ob =
     (let ask_prices = map fst (asks ob); bid_prices = map fst (bids ob);
          diffs = (if length ask_prices = 1 then map (\<lambda>b. fl_sub (hd ask_prices) b) bid_prices
                   else map (\<lambda>a. fl_sub a (hd bid_prices)) ask_prices)
      in fl_mul (Fin (1/10))
           (fl_div (np_mean diffs) (np_mean (map snd (asks ob) @ map snd (bids ob)))))"

definition broadcast_market_impact :: "'a orderbook_scheme \<Rightarrow> fl \<Rightarrow> fl \<Rightarrow> fl" where
  "broadcast_market_impact ob quantity volatility =
     (let eta = broadcast_eta ob; gamma = spec_gamma ob; lam = spec_lambda volatility;
          T = spec_T quantity volatility;
          impact = fl_add (fl_add (fl_div (fl_mul eta quantity) T) (fl_mul gamma quantity))
                          (fl_mul (fl_mul lam volatility) (np_sqrt T))
      in fl_mul (fl_div impact quantity) (Fin 100))"

section \<open>Concrete inputs\<close>

text \<open>The book of the specification's end-to-end scenario.\<close>

definition scenario_book :: orderbook where
  "scenario_book =
     \<lparr>asks = [(Fin (201/2), Fin 2), (Fin 101, Fin 3)],
      bids = [(Fin 100, Fin 2), (Fin (199/2), Fin 3)]\<rparr>"

text \<open>A crossed book: the best bid 101 is above the best ask 100.\<close>

definition crossed_book :: orderbook where
  "crossed_book = \<lparr>asks = [(Fin 100, Fin 1)], bids = [(Fin 101, Fin 1)]\<rparr>"

text \<open>A book whose levels all have quantity zero.\<close>

definition zero_depth_book :: orderbook where
  "zero_depth_book = \<lparr>asks = [(Fin 100, Fin 0)], bids = [(Fin 99, Fin 0)]\<rparr>"

text \<open>Four ask levels against two bid levels.\<close>

definition uneven_book :: orderbook where
  "uneven_book =
     \<lparr>asks = [(Fin 101, Fin 1), (Fin 102, Fin 1), (Fin 103, Fin 1), (Fin 104, Fin 1)],
      bids = [(Fin 100, Fin 1), (Fin 99, Fin 1)]\<rparr>"

text \<open>One ask level against two bid levels.\<close>

definition single_ask_book :: orderbook where
  "single_ask_book =
     \<lparr>asks = [(Fin 101, Fin 1)], bids = [(Fin 100, Fin 1), (Fin 99, Fin 1)]\<rparr>"

text \<open>A book with no level on either side.\<close>

definition empty_book :: orderbook where
  "empty_book = \<lparr>asks = [], bids = []\<rparr>"

text \<open>The message of the IndexError that \<open>a[0]\<close> raises on an empty array.\<close>

definition index_error_text :: string where
  "index_error_text = ''index 0 is out of bounds for axis 0 with size 0''"

text \<open>
  Fitted models and scikit-learn behaviours used as concrete inputs: a scaler that leaves
  rows unchanged, a scaler that rejects its input, a regression that predicts zero and a
  classifier that always answers one quarter against three quarters.
\<close>

definition identity_fit_transform ::
  "fl list list \<Rightarrow> exn + ((fl list \<Rightarrow> exn + fl list) \<times> fl list list)" where
  "identity_fit_transform X = Inr ((\<lambda>x. Inr x), X)"





definition fitted_maker_taker :: maker_taker_model where
  "fitted_maker_taker =
     \<lparr>mt_is_trained = True,
      mt_scaler_transform = (\<lambda>x. Inr x),
      mt_model_predict_proba = (\<lambda>x. Inr [Fin (1/4), Fin (3/4)])\<rparr>"



text \<open>
  The scenario as the client delivers it, and a window with fresh models, quantity 500,
  volatility 1 percent and the second fee tier.
\<close>

definition scenario_snapshot :: "nat snapshot" where
  "scenario_snapshot =
     \<lparr>asks = [(Fin (201/2), Fin 2), (Fin 101, Fin 3)],
      bids = [(Fin 100, Fin 2), (Fin (199/2), Fin 3)],
      timestamp = 0,
      extra = [(py_str ''exchange'', JStr (py_str ''OKX'')),
               (py_str ''symbol'', JStr (py_str ''BTC-USDT-SWAP''))]\<rparr>"

definition scenario_window :: main_window where
  "scenario_window =
     \<lparr>slippage_model = SlippageModel_init,
      maker_taker_model = MakerTakerModel_init,
      quantity_spin = Fin 500,
      volatility_spin = Fin 1,
      fee_tier_combo = ''Tier 2'',
      slippage_label = Fin 0,
      fees_label = Fin 0,
      market_impact_label = Fin 0,
      net_cost_label = Fin 0,
      maker_taker_label = (Fin 0, Fin 0),
      latency_label = Fin 0,
      stdout = [],
      logged = []\<rparr>"

text \<open>
  A client after \<open>connect\<close> with no subscriber yet, and library functions that reject
  every text.
\<close>

definition connected_client :: "(nat, nat) client" where
  "connected_client = \<lparr>callbacks = [], running = True\<rparr>"

definition empty_lib :: "nat pylib" where
  "empty_lib =
     \<lparr>json_loads = (\<lambda>s. None), str_to_float = (\<lambda>s. None), fromisoformat = (\<lambda>s. None)\<rparr>"

text \<open>
  Frames and library answers for the scenario: the scenario's message as decoded JSON, a
  message without \<open>bids\<close>, library functions that know exactly the texts these use, a
  subscriber that counts its calls in the world and a subscriber that always raises.
\<close>

definition scenario_json :: json where
  "scenario_json = JObj
     [(py_str ''timestamp'', JStr (py_str ''2024-01-01T00:00:00Z'')),
      (py_str ''exchange'', JStr (py_str ''OKX'')),
      (py_str ''symbol'', JStr (py_str ''BTC-USDT-SWAP'')),
      (py_str ''asks'', JArr [JArr [JStr (py_str ''100.5''), JStr (py_str ''2'')],
                              JArr [JStr (py_str ''101''), JStr (py_str ''3'')]]),
      (py_str ''bids'', JArr [JArr [JStr (py_str ''100''), JStr (py_str ''2'')],
                              JArr [JStr (py_str ''99.5''), JStr (py_str ''3'')]])]"

definition no_bids_json :: json where
  "no_bids_json = JObj
     [(py_str ''timestamp'', JStr (py_str ''2024-01-01T00:00:00Z'')),
      (py_str ''exchange'', JStr (py_str ''OKX'')),
      (py_str ''symbol'', JStr (py_str ''BTC-USDT-SWAP'')),
      (py_str ''asks'', JArr [JArr [JStr (py_str ''100.5''), JStr (py_str ''2'')]])]"

definition scenario_lib :: "nat pylib" where
  "scenario_lib =
     \<lparr>json_loads = map_of [(''scenario frame'', scenario_json),
                           (''frame without bids'', no_bids_json)],
      str_to_float = map_of [(py_str ''100.5'', Fin (201/2)), (py_str ''2'', Fin 2),
                             (py_str ''101'', Fin 101), (py_str ''3'', Fin 3),
                             (py_str ''100'', Fin 100), (py_str ''99.5'', Fin (199/2))],
      fromisoformat = map_of [(py_str ''2024-01-01T00:00:00+00:00'', 0)]\<rparr>"

definition counting_subscriber :: "(nat, nat) callback" where
  "counting_subscriber s w = (Suc w, None)"

definition failing_subscriber :: "(nat, nat) callback" where
  "failing_subscriber s w = (w, Some (ValueError ''subscriber failed''))"

text \<open>
  Two ask levels against one bid level, and one ask level against no bid level.
\<close>

definition single_bid_book :: orderbook where
  "single_bid_book =
     \<lparr>asks = [(Fin 101, Fin 1), (Fin 102, Fin 1)], bids = [(Fin 100, Fin 2)]\<rparr>"

definition one_ask_no_bid_book :: orderbook where
  "one_ask_no_bid_book = \<lparr>asks = [(Fin 101, Fin 1)], bids = []\<rparr>"

text \<open>
  A classifier fitted on labels other than 0 and 1: \<open>fit\<close> accepts any labels with at
  least two classes, and \<open>predict_proba\<close> then has one entry per class, here all equal.
  With the three labels 0, 1 and 2 the fitted model is \<open>three_class_maker_taker\<close>.
\<close>

definition uniform_fit_proba ::
  "fl list list \<Rightarrow> int list \<Rightarrow> exn + (fl list \<Rightarrow> exn + fl list)" where
  "uniform_fit_proba X y =
     (let n = length (remdups y)
      in if n < 2 then Inl (ValueError ''This solver needs samples of at least 2 classes'')
         else Inr (\<lambda>x. Inr (replicate n (Fin (1 / real n)))))"

definition three_label_samples :: "maker_taker_sample list" where
  "three_label_samples =
     [\<lparr>mt_orderbook = scenario_book, mt_quantity = Fin 500, mt_execution_type = 0\<rparr>,
      \<lparr>mt_orderbook = scenario_book, mt_quantity = Fin 500, mt_execution_type = 1\<rparr>,
      \<lparr>mt_orderbook = scenario_book, mt_quantity = Fin 500, mt_execution_type = 2\<rparr>]"

definition three_class_maker_taker :: maker_taker_model where
  "three_class_maker_taker =
     \<lparr>mt_is_trained = True,
      mt_scaler_transform = (\<lambda>x. Inr x),
      mt_model_predict_proba = (\<lambda>x. Inr [Fin (1/3), Fin (1/3), Fin (1/3)])\<rparr>"

section \<open>Predicates of the specification\<close>

text \<open>
  Maker and taker are finite, each lies between 0 and 100 and they add up to 100.
\<close>

definition valid_proportions :: "proportions \<Rightarrow> bool" where
  "valid_proportions v =
     (case (maker v, taker v) of
        (Fin mk, Fin tk) \<Rightarrow> mk + tk = 100 \<and> 0 \<le> mk \<and> mk \<le> 100 \<and> 0 \<le> tk \<and> tk \<le> 100
      | _ \<Rightarrow> False)"

text \<open>
  What a binary classifier's \<open>predict_proba\<close> returns for one row: two finite
  probabilities that add up to one.
\<close>

fun is_probability_pair :: "fl list \<Rightarrow> bool" where
  "is_probability_pair [Fin a, Fin b] = (0 \<le> a \<and> 0 \<le> b \<and> a + b = 1)"
| "is_probability_pair _ = False"

text \<open>What a trace shows: the delays slept, in order, and the subscriber calls, in order.\<close>

fun sleeps :: "'t event list \<Rightarrow> nat list" where
  "sleeps [] = []"
| "sleeps (Sleep d # tr) = d # sleeps tr"
| "sleeps (_ # tr) = sleeps tr"




text \<open>
  The specification's backoff: the delay before the \<open>k\<close>-th attempt of an episode,
  counting from one, is \<open>min(2^(k-1), 30)\<close>; these are the delays of the first \<open>n\<close>
  attempts.
\<close>

definition backoff_delays :: "nat \<Rightarrow> nat list" where
  "backoff_delays n = map (\<lambda>k. min (2 ^ k) 30) [0..<n]"

section \<open>Properties of the models\<close>

lemmas np_defs =
  np_item00_def np_col0_def np_col1_def np_broadcast_def np_sum_def np_mean_def
  side_depth_def fl_sub_def fl_inf_def Let_def

lemmas slippage_defs =
  SlippageModel_calculate_def SlippageModel_calculate_try_def
  SlippageModel_extract_features_def SlippageModel_calculate_heuristic_slippage_def

lemmas market_impact_defs =
  MarketImpactModel_calculate_def MarketImpactModel_calculate_try_def
  MarketImpactModel_calculate_temporary_impact_def
  MarketImpactModel_calculate_permanent_impact_def
  MarketImpactModel_calculate_optimal_time_def

lemmas maker_taker_defs =
  MakerTakerModel_calculate_def MakerTakerModel_calculate_try_def
  MakerTakerModel_extract_features_def MakerTakerModel_calculate_heuristic_proportions_def

subsection \<open>Helper facts\<close>

lemma bind_exn_eq_Inr: "bind_exn r f = Inr v \<longleftrightarrow> (\<exists>x. r = Inr x \<and> f x = Inr v)"
  by (cases r) auto

lemma empty_side_item: "a = [] \<Longrightarrow> np_item00 a = Inl (IndexError index_error_text)"
  by (simp add: np_item00_def index_error_text_def)

lemma nonempty_side_item: "a \<noteq> [] \<Longrightarrow> \<exists>p. np_item00 a = Inr p"
  by (cases a) (auto simp: np_item00_def)

lemma empty_side_slippage_features:
  assumes "asks ob = [] \<or> bids ob = []"
  shows "SlippageModel_extract_features ob q = Inl (IndexError index_error_text)"
proof (cases "asks ob = []")
  case True
  then show ?thesis
    by (simp add: SlippageModel_extract_features_def empty_side_item)
next
  case False
  then obtain p where "np_item00 (asks ob) = Inr p" using nonempty_side_item by blast
  moreover from False assms have "bids ob = []" by simp
  ultimately show ?thesis
    by (simp add: SlippageModel_extract_features_def empty_side_item)
qed

lemma empty_side_maker_taker_features:
  assumes "asks ob = [] \<or> bids ob = []"
  shows "MakerTakerModel_extract_features ob q = Inl (IndexError index_error_text)"
proof (cases "asks ob = []")
  case True
  then show ?thesis
    by (simp add: MakerTakerModel_extract_features_def empty_side_item)
next
  case False
  then obtain p where "np_item00 (asks ob) = Inr p" using nonempty_side_item by blast
  moreover from False assms have "bids ob = []" by simp
  ultimately show ?thesis
    by (simp add: MakerTakerModel_extract_features_def empty_side_item)
qed

lemma empty_side_market_impact:
  assumes "asks ob = [] \<or> bids ob = []"
  shows "MarketImpactModel_calculate_try ob q vol = Inl (IndexError index_error_text)"
proof (cases "asks ob = []")
  case True
  then show ?thesis
    by (simp add: MarketImpactModel_calculate_try_def empty_side_item)
next
  case False
  then obtain p where "np_item00 (asks ob) = Inr p" using nonempty_side_item by blast
  moreover from False assms have "bids ob = []" by simp
  ultimately show ?thesis
    by (simp add: MarketImpactModel_calculate_try_def empty_side_item)
qed

subsection \<open>Slippage on a crossed book\<close>

lemma py_max_zero_nonnegative: "\<not> fl_lt (py_max (Fin 0) s) (Fin 0)"
  by (cases s) (auto simp: py_max_def)

text \<open>The trained path never returns a negative value, whatever the regression predicts.\<close>

lemma trained_slippage_nonnegative:
  assumes "sl_is_trained m" and "SlippageModel_calculate m ob q = (lg, Inr v)"
  shows "\<not> fl_lt v (Fin 0)"
proof (cases "SlippageModel_calculate_try m ob q")
  case (Inl e)
  with assms(2) show ?thesis
    by (auto simp: SlippageModel_calculate_def)
next
  case (Inr r)
  with assms(1) obtain s where "r = py_max (Fin 0) s"
    by (auto simp: SlippageModel_calculate_try_def bind_exn_eq_Inr)
  with Inr assms(2) show ?thesis
    by (auto simp: SlippageModel_calculate_def py_max_zero_nonnegative)
qed

text \<open>
  Claim C2: for every order book accepted as valid input, crossed books included, and
  every positive quantity, \<open>SlippageModel.calculate\<close> returns a value that is at least
  zero, untrained or trained. The trained path ends in \<open>max(0.0, slippage)\<close>; the
  heuristic path returns its sum unclamped. On the crossed book with best ask 100 and
  best bid 101, one unit on each side, the untrained model returns \<open>-50/201\<close> for
  quantity 1: the spread term is \<open>0.5 \<times> (-1 / 100.5 \<times> 100)\<close> and the quantity term
  \<open>0.5 \<times> (1 / 201 \<times> 100)\<close>.
\<close>

theorem slippage_heuristic_negative_on_crossed_book:
  "SlippageModel_calculate SlippageModel_init crossed_book (Fin 1)
     = ([], Inr (Fin (- (50 / 201))))"
  by (simp add: slippage_defs np_defs crossed_book_def SlippageModel_init_def)

subsection \<open>Maker and taker proportions\<close>

lemma clamp_range:
  "\<exists>r. py_max (Fin 0) (py_min (Fin 100) x) = Fin r \<and> 0 \<le> r \<and> r \<le> 100"
  by (cases x) (auto simp: py_max_def py_min_def)

lemma heuristic_proportions_valid:
  assumes "MakerTakerModel_calculate_heuristic_proportions ob q = Inr v"
  shows "valid_proportions v"
proof -
  from assms obtain x where v: "v = \<lparr>maker = py_max (Fin 0) (py_min (Fin 100) x),
        taker = fl_sub (Fin 100) (py_max (Fin 0) (py_min (Fin 100) x))\<rparr>"
    by (auto simp: MakerTakerModel_calculate_heuristic_proportions_def bind_exn_eq_Inr Let_def)
  obtain r where r: "py_max (Fin 0) (py_min (Fin 100) x) = Fin r" "0 \<le> r" "r \<le> 100"
    using clamp_range by blast
  show ?thesis
    by (simp add: v r valid_proportions_def fl_sub_def)
qed

lemma np_item_pair:
  "is_probability_pair p \<Longrightarrow>
     \<exists>a b. np_item p 0 = Inr (Fin a) \<and> np_item p 1 = Inr (Fin b) \<and> 0 \<le> a \<and> 0 \<le> b \<and> a + b = 1"
  by (cases p rule: is_probability_pair.cases) (auto simp: np_item_def)

lemma trained_proportions_valid:
  assumes tr: "mt_is_trained m"
    and pp: "\<forall>x p. mt_model_predict_proba m x = Inr p \<longrightarrow> is_probability_pair p"
    and r: "MakerTakerModel_calculate_try m ob q = Inr v"
  shows "valid_proportions v"
proof -
  from r tr obtain sc p p0 p1 where
    p: "mt_model_predict_proba m sc = Inr p" and
    p0: "np_item p 0 = Inr p0" and p1: "np_item p 1 = Inr p1" and
    v: "v = \<lparr>maker = fl_mul p0 (Fin 100), taker = fl_mul p1 (Fin 100)\<rparr>"
    by (auto simp: MakerTakerModel_calculate_try_def bind_exn_eq_Inr)
  from pp p have "is_probability_pair p" by blast
  then obtain a b where "np_item p 0 = Inr (Fin a)" "np_item p 1 = Inr (Fin b)"
      "0 \<le> a" "0 \<le> b" "a + b = 1"
    using np_item_pair by blast
  with p0 p1 v show ?thesis
    by (auto simp: valid_proportions_def)
qed

text \<open>
  Claim C6, as the code has it: for every order book and quantity, the maker and taker
  values returned by \<open>MakerTakerModel.calculate\<close> add up to 100 and each lies in
  [0, 100] when the model is untrained, and when it is trained with a classifier whose
  \<open>predict_proba\<close> returns two probabilities with sum one. Untrained, the clamp
  \<open>max(0.0, min(100.0, x))\<close> yields a finite number in range whatever \<open>x\<close> is, infinite
  or NaN included; the error path returns 50 and 50 in both modes. Trained, the values are
  100 times the first two entries of \<open>predict_proba\<close>.
\<close>

theorem maker_taker_proportions_valid:
  assumes "mt_is_trained m \<Longrightarrow>
             \<forall>x p. mt_model_predict_proba m x = Inr p \<longrightarrow> is_probability_pair p"
  shows "\<exists>lg v. MakerTakerModel_calculate m ob quantity = (lg, Inr v) \<and> valid_proportions v"
proof (cases "MakerTakerModel_calculate_try m ob quantity")
  case (Inl e)
  then show ?thesis
    by (simp add: MakerTakerModel_calculate_def valid_proportions_def)
next
  case (Inr v)
  have "valid_proportions v"
  proof (cases "mt_is_trained m")
    case True
    with assms Inr show ?thesis
      using trained_proportions_valid by blast
  next
    case False
    with Inr have "MakerTakerModel_calculate_heuristic_proportions ob quantity = Inr v"
      by (auto simp: MakerTakerModel_calculate_try_def bind_exn_eq_Inr)
    then show ?thesis by (rule heuristic_proportions_valid)
  qed
  with Inr show ?thesis
    by (simp add: MakerTakerModel_calculate_def)
qed

theorem maker_taker_proportions_valid_witness:
  "\<exists>lg v. MakerTakerModel_calculate fitted_maker_taker scenario_book (Fin 500) = (lg, Inr v)
     \<and> valid_proportions v"
  using maker_taker_proportions_valid [of fitted_maker_taker scenario_book "Fin 500"]
  by (simp add: fitted_maker_taker_def)

text \<open>
  Claim C6 as stated covers the trained mode without condition. \<open>train\<close> fits whatever
  labels the samples carry; trained on the labels 0, 1 and 2 the classifier has three
  classes, \<open>calculate\<close> reads only the first two entries of \<open>predict_proba\<close>, and maker
  and taker are 100/3 each: their sum is not 100.
\<close>

theorem three_class_training_breaks_sum:
  "MakerTakerModel_train identity_fit_transform uniform_fit_proba MakerTakerModel_init
       three_label_samples
     = ([], Inr three_class_maker_taker)
   \<and> MakerTakerModel_calculate three_class_maker_taker scenario_book (Fin 500)
     = ([], Inr \<lparr>maker = Fin (100/3), taker = Fin (100/3)\<rparr>)
   \<and> \<not> valid_proportions \<lparr>maker = Fin (100/3), taker = Fin (100/3)\<rparr>"
  by (simp add: MakerTakerModel_train_def MakerTakerModel_train_try_def
      identity_fit_transform_def uniform_fit_proba_def three_label_samples_def
      three_class_maker_taker_def MakerTakerModel_init_def scenario_book_def
      maker_taker_defs np_defs np_item_def valid_proportions_def numeral_3_eq_3)

subsection \<open>No exception leaves a model\<close>

lemma slippage_calculate_returns: "\<exists>lg v. SlippageModel_calculate sm ob q = (lg, Inr v)"
  by (cases "SlippageModel_calculate_try sm ob q") (simp_all add: SlippageModel_calculate_def)

lemma market_impact_calculate_returns:
  "\<exists>lg v. MarketImpactModel_calculate ob q vol = (lg, Inr v)"
  by (cases "MarketImpactModel_calculate_try ob q vol")
    (simp_all add: MarketImpactModel_calculate_def)

lemma maker_taker_calculate_returns: "\<exists>lg v. MakerTakerModel_calculate mm ob q = (lg, Inr v)"
  by (cases "MakerTakerModel_calculate_try mm ob q") (simp_all add: MakerTakerModel_calculate_def)

lemma nonempty_side_depth:
  "a \<noteq> [] \<Longrightarrow> \<exists>d. side_depth a = Inr d"
  by (simp add: side_depth_def np_col0_def np_col1_def np_broadcast_def)

lemma untrained_slippage_returns_heuristic:
  assumes "asks ob \<noteq> []" and "bids ob \<noteq> []" and "\<not> sl_is_trained sm"
  shows "\<exists>v. SlippageModel_calculate_heuristic_slippage ob q = Inr v
             \<and> SlippageModel_calculate sm ob q = ([], Inr v)"
proof -
  obtain a0 b0 where i: "np_item00 (asks ob) = Inr a0" "np_item00 (bids ob) = Inr b0"
    using nonempty_side_item assms(1,2) by blast
  obtain da db where d: "side_depth (asks ob) = Inr da" "side_depth (bids ob) = Inr db"
    using nonempty_side_depth assms(1,2) by blast
  show ?thesis
    using assms(3)
    by (simp add: SlippageModel_calculate_def SlippageModel_calculate_try_def
        SlippageModel_extract_features_def SlippageModel_calculate_heuristic_slippage_def
        i d Let_def)
qed

lemma untrained_maker_taker_returns_heuristic:
  assumes "asks ob \<noteq> []" and "bids ob \<noteq> []" and "\<not> mt_is_trained mm"
  shows "\<exists>v. MakerTakerModel_calculate_heuristic_proportions ob q = Inr v
             \<and> MakerTakerModel_calculate mm ob q = ([], Inr v)"
proof -
  obtain a0 b0 where i: "np_item00 (asks ob) = Inr a0" "np_item00 (bids ob) = Inr b0"
    using nonempty_side_item assms(1,2) by blast
  obtain da db where d: "side_depth (asks ob) = Inr da" "side_depth (bids ob) = Inr db"
    using nonempty_side_depth assms(1,2) by blast
  show ?thesis
    using assms(3)
    by (simp add: MakerTakerModel_calculate_def MakerTakerModel_calculate_try_def
        MakerTakerModel_extract_features_def MakerTakerModel_calculate_heuristic_proportions_def
        i d Let_def)
qed

text \<open>
  Claim C7, as the code has it: for every input each model's \<open>calculate\<close> returns and
  never raises to its caller. Whenever its \<open>try\<close> block raises, the exception is logged
  and the result is the default: 0.0 for slippage, 0.0 for market impact, 50 and 50 for
  maker and taker. A book with an empty side raises IndexError in all three and so gives
  the defaults. The heuristics have no guard on the depth: for an untrained slippage or
  maker/taker model and every book with both sides non-empty, zero depth included,
  nothing raises, nothing is logged and \<open>calculate\<close> returns the value the heuristic
  computes.
\<close>

theorem calculate_never_raises:
  "(\<exists>lg v. SlippageModel_calculate sm ob q = (lg, Inr v))
   \<and> (\<exists>lg v. MarketImpactModel_calculate ob q vol = (lg, Inr v))
   \<and> (\<exists>lg v. MakerTakerModel_calculate mm ob q = (lg, Inr v))
   \<and> (\<forall>e. SlippageModel_calculate_try sm ob q = Inl e \<longrightarrow>
         SlippageModel_calculate sm ob q
           = ([LogError (''Error calculating slippage: '' @ exn_str e)], Inr (Fin 0)))
   \<and> (\<forall>e. MarketImpactModel_calculate_try ob q vol = Inl e \<longrightarrow>
         MarketImpactModel_calculate ob q vol
           = ([LogError (''Error calculating market impact: '' @ exn_str e)], Inr (Fin 0)))
   \<and> (\<forall>e. MakerTakerModel_calculate_try mm ob q = Inl e \<longrightarrow>
         MakerTakerModel_calculate mm ob q
           = ([LogError (''Error calculating maker/taker proportions: '' @ exn_str e)],
              Inr \<lparr>maker = Fin 50, taker = Fin 50\<rparr>))
   \<and> (asks ob = [] \<or> bids ob = [] \<longrightarrow>
         SlippageModel_calculate sm ob q
           = ([LogError (''Error calculating slippage: '' @ index_error_text)], Inr (Fin 0))
       \<and> MarketImpactModel_calculate ob q vol
           = ([LogError (''Error calculating market impact: '' @ index_error_text)], Inr (Fin 0))
       \<and> MakerTakerModel_calculate mm ob q
           = ([LogError (''Error calculating maker/taker proportions: '' @ index_error_text)],
              Inr \<lparr>maker = Fin 50, taker = Fin 50\<rparr>))
   \<and> (asks ob \<noteq> [] \<and> bids ob \<noteq> [] \<and> \<not> sl_is_trained sm \<longrightarrow>
         (\<exists>v. SlippageModel_calculate_heuristic_slippage ob q = Inr v
              \<and> SlippageModel_calculate sm ob q = ([], Inr v)))
   \<and> (asks ob \<noteq> [] \<and> bids ob \<noteq> [] \<and> \<not> mt_is_trained mm \<longrightarrow>
         (\<exists>v. MakerTakerModel_calculate_heuristic_proportions ob q = Inr v
              \<and> MakerTakerModel_calculate mm ob q = ([], Inr v)))"
proof -
  have deg: "SlippageModel_calculate sm ob q
           = ([LogError (''Error calculating slippage: '' @ index_error_text)], Inr (Fin 0))
       \<and> MarketImpactModel_calculate ob q vol
           = ([LogError (''Error calculating market impact: '' @ index_error_text)], Inr (Fin 0))
       \<and> MakerTakerModel_calculate mm ob q
           = ([LogError (''Error calculating maker/taker proportions: '' @ index_error_text)],
              Inr \<lparr>maker = Fin 50, taker = Fin 50\<rparr>)"
    if h: "asks ob = [] \<or> bids ob = []"
    using empty_side_slippage_features [OF h, of q] empty_side_maker_taker_features [OF h, of q]
      empty_side_market_impact [OF h, of q vol]
    by (simp add: SlippageModel_calculate_def SlippageModel_calculate_try_def
        MarketImpactModel_calculate_def MakerTakerModel_calculate_def
        MakerTakerModel_calculate_try_def)
  have catch: "(\<forall>e. SlippageModel_calculate_try sm ob q = Inl e \<longrightarrow>
         SlippageModel_calculate sm ob q
           = ([LogError (''Error calculating slippage: '' @ exn_str e)], Inr (Fin 0)))
   \<and> (\<forall>e. MarketImpactModel_calculate_try ob q vol = Inl e \<longrightarrow>
         MarketImpactModel_calculate ob q vol
           = ([LogError (''Error calculating market impact: '' @ exn_str e)], Inr (Fin 0)))
   \<and> (\<forall>e. MakerTakerModel_calculate_try mm ob q = Inl e \<longrightarrow>
         MakerTakerModel_calculate mm ob q
           = ([LogError (''Error calculating maker/taker proportions: '' @ exn_str e)],
              Inr \<lparr>maker = Fin 50, taker = Fin 50\<rparr>))"
    by (simp add: SlippageModel_calculate_def MarketImpactModel_calculate_def
        MakerTakerModel_calculate_def)
  have sl: "\<exists>v. SlippageModel_calculate_heuristic_slippage ob q = Inr v
              \<and> SlippageModel_calculate sm ob q = ([], Inr v)"
    if "asks ob \<noteq> [] \<and> bids ob \<noteq> [] \<and> \<not> sl_is_trained sm"
    using that by (intro untrained_slippage_returns_heuristic) auto
  have mt: "\<exists>v. MakerTakerModel_calculate_heuristic_proportions ob q = Inr v
              \<and> MakerTakerModel_calculate mm ob q = ([], Inr v)"
    if "asks ob \<noteq> [] \<and> bids ob \<noteq> [] \<and> \<not> mt_is_trained mm"
    using that by (intro untrained_maker_taker_returns_heuristic) auto
  show ?thesis
    using slippage_calculate_returns [of sm ob q] market_impact_calculate_returns [of ob q vol]
      maker_taker_calculate_returns [of mm ob q] deg catch sl mt
    by blast
qed

theorem calculate_never_raises_witness:
  "SlippageModel_calculate SlippageModel_init empty_book (Fin 1)
     = ([LogError (''Error calculating slippage: '' @ index_error_text)], Inr (Fin 0))
   \<and> MarketImpactModel_calculate empty_book (Fin 1) (Fin 0)
     = ([LogError (''Error calculating market impact: '' @ index_error_text)], Inr (Fin 0))
   \<and> MakerTakerModel_calculate MakerTakerModel_init empty_book (Fin 1)
     = ([LogError (''Error calculating maker/taker proportions: '' @ index_error_text)],
        Inr \<lparr>maker = Fin 50, taker = Fin 50\<rparr>)
   \<and> (\<exists>v. SlippageModel_calculate_heuristic_slippage scenario_book (Fin 500) = Inr v
          \<and> SlippageModel_calculate SlippageModel_init scenario_book (Fin 500) = ([], Inr v))
   \<and> (\<exists>v. MakerTakerModel_calculate_heuristic_proportions scenario_book (Fin 500) = Inr v
          \<and> MakerTakerModel_calculate MakerTakerModel_init scenario_book (Fin 500)
              = ([], Inr v))"
  using calculate_never_raises
    [of SlippageModel_init empty_book "Fin 1" "Fin 0" MakerTakerModel_init]
    calculate_never_raises
    [of SlippageModel_init scenario_book "Fin 500" "Fin 0" MakerTakerModel_init]
  by (simp add: empty_book_def scenario_book_def SlippageModel_init_def MakerTakerModel_init_def)

text \<open>
  Claim C7 as stated also says that the slippage heuristic is guarded against division by
  zero, with the failure logged, and counts zero depth among the failures that give the
  defaults. On the book with one ask at 100 and one bid at 99, both of quantity zero, the
  total depth is zero. With untrained models and quantity 1 the divisions by it are
  numpy's and raise nothing, so no handler is entered: nothing is logged, the slippage
  and the market impact are infinite, and maker and taker are 0 and 100.
\<close>

theorem zero_depth_not_guarded:
  "SlippageModel_calculate SlippageModel_init zero_depth_book (Fin 1) = ([], Inr PInf)
   \<and> MarketImpactModel_calculate zero_depth_book (Fin 1) (Fin 0) = ([], Inr PInf)
   \<and> MakerTakerModel_calculate MakerTakerModel_init zero_depth_book (Fin 1)
       = ([], Inr \<lparr>maker = Fin 0, taker = Fin 100\<rparr>)"
  by (simp add: slippage_defs market_impact_defs maker_taker_defs np_defs zero_depth_book_def
      SlippageModel_init_def MakerTakerModel_init_def py_max_def py_min_def)

subsection \<open>The market impact formula\<close>

lemma fl_mul_div_assoc: "fl_mul a (fl_div b c) = fl_div (fl_mul a b) c"
  by (cases a; cases b; cases c)
    (auto simp: fl_inf_def sgn_mult sgn_if zero_less_mult_iff mult_less_0_iff
      zero_less_divide_iff divide_less_0_iff)

lemma temporary_impact_equal_levels:
  assumes "length a = length b" "a \<noteq> []"
  shows "MarketImpactModel_calculate_temporary_impact a b q =
    Inr (fl_mul (Fin (1/10))
       (fl_div (np_mean (map2 fl_sub (map fst a) (map fst b)))
               (np_mean (map snd a @ map snd b))))"
proof -
  from assms have "b \<noteq> []" by auto
  with assms show ?thesis
    by (simp add: MarketImpactModel_calculate_temporary_impact_def np_col0_def np_col1_def
        np_broadcast_def)
qed

lemma temporary_impact_unequal_levels:
  assumes "length a \<noteq> length b" "length a \<noteq> 1" "length b \<noteq> 1" "a \<noteq> []" "b \<noteq> []"
  shows "MarketImpactModel_calculate_temporary_impact a b q =
    Inl (ValueError ''operands could not be broadcast together'')"
  using assms
  by (simp add: MarketImpactModel_calculate_temporary_impact_def np_col0_def np_col1_def
        np_broadcast_def)

text \<open>
  Claim C5, as the code has it: for every order book with at least one level and as many
  ask levels as bid levels, and every quantity and volatility,
  \<open>MarketImpactModel.calculate\<close> logs nothing and returns the specification's formula
  \<open>(eta \<times> quantity / T + gamma \<times> quantity + lambda \<times> volatility \<times> sqrt(T)) / quantity \<times> 100\<close>.
\<close>

theorem market_impact_formula:
  assumes "length (asks ob) = length (bids ob)" and "asks ob \<noteq> []"
  shows "MarketImpactModel_calculate ob quantity volatility
           = ([], Inr (spec_market_impact ob quantity volatility))"
proof -
  from assms have b: "bids ob \<noteq> []" by auto
  obtain p1 p2 where i: "np_item00 (asks ob) = Inr p1" "np_item00 (bids ob) = Inr p2"
    using nonempty_side_item assms(2) b by blast
  show ?thesis
    by (simp add: MarketImpactModel_calculate_def MarketImpactModel_calculate_try_def i
        temporary_impact_equal_levels [OF assms] MarketImpactModel_calculate_permanent_impact_def
        MarketImpactModel_calculate_optimal_time_def spec_market_impact_def spec_eta_def
        spec_gamma_def spec_lambda_def spec_T_def fl_mul_div_assoc Let_def)
qed

theorem market_impact_formula_witness:
  "MarketImpactModel_calculate scenario_book (Fin 500) (Fin (1/100))
           = ([], Inr (spec_market_impact scenario_book (Fin 500) (Fin (1/100))))"
  using market_impact_formula [of scenario_book "Fin 500" "Fin (1/100)"]
  by (simp add: scenario_book_def)

text \<open>
  Claim C5 as stated covers every non-degenerate book. With four ask levels and two bid
  levels, all prices and quantities positive, the subtraction of the two price columns
  raises, and \<open>calculate\<close> returns the default 0.0, while the formula gives 77/30.
\<close>

theorem market_impact_formula_fails_on_uneven_book:
  "MarketImpactModel_calculate uneven_book (Fin 1) (Fin 0)
     = ([LogError ''Error calculating market impact: operands could not be broadcast together''],
        Inr (Fin 0))
   \<and> spec_market_impact uneven_book (Fin 1) (Fin 0) = Fin (77 / 30)"
  by (simp add: market_impact_defs spec_market_impact_def spec_eta_def spec_gamma_def
      spec_lambda_def spec_T_def np_defs uneven_book_def)

subsection \<open>Books with different numbers of ask and bid levels\<close>

lemma temporary_impact_single_level:
  assumes "a \<noteq> []" "b \<noteq> []" "length a = 1 \<or> length b = 1"
  shows "MarketImpactModel_calculate_temporary_impact a b q =
    Inr (fl_mul (Fin (1/10))
       (fl_div (np_mean (if length (map fst a) = 1
                         then map (\<lambda>y. fl_sub (hd (map fst a)) y) (map fst b)
                         else map (\<lambda>x. fl_sub x (hd (map fst b))) (map fst a)))
               (np_mean (map snd a @ map snd b))))"
proof (cases "length a = length b")
  case True
  with assms(3) have la: "length a = 1" and lb: "length b = 1" by auto
  then obtain x y where "a = [x]" "b = [y]"
    by (cases a; cases b) auto
  then show ?thesis
    by (simp add: MarketImpactModel_calculate_temporary_impact_def np_col0_def np_col1_def
        np_broadcast_def)
next
  case False
  with assms show ?thesis
    by (auto simp: MarketImpactModel_calculate_temporary_impact_def np_col0_def np_col1_def
        np_broadcast_def)
qed

text \<open>
  Claim C10, as the code has it: for every order book in which the number of ask levels
  differs from the number of bid levels, \<open>MarketImpactModel.calculate\<close> logs an error
  and returns the default 0.0 when one side is empty (IndexError) or when neither side
  has exactly one level (ValueError of the subtraction); when one side has exactly one
  level and the other side is not empty, the single price is stretched over the other
  side, nothing raises or is logged, and the result is the market impact formula with
  the mean of those differences as spread.
\<close>

theorem market_impact_unequal_levels:
  "(asks ob = [] \<or> bids ob = [] \<longrightarrow>
      MarketImpactModel_calculate ob quantity volatility
        = ([LogError (''Error calculating market impact: '' @ index_error_text)], Inr (Fin 0)))
   \<and> (asks ob \<noteq> [] \<and> bids ob \<noteq> [] \<and> length (asks ob) \<noteq> length (bids ob)
       \<and> length (asks ob) \<noteq> 1 \<and> length (bids ob) \<noteq> 1 \<longrightarrow>
      MarketImpactModel_calculate ob quantity volatility
        = ([LogError (''Error calculating market impact: ''
                      @ ''operands could not be broadcast together'')], Inr (Fin 0)))
   \<and> (asks ob \<noteq> [] \<and> bids ob \<noteq> [] \<and> (length (asks ob) = 1 \<or> length (bids ob) = 1) \<longrightarrow>
      MarketImpactModel_calculate ob quantity volatility
        = ([], Inr (broadcast_market_impact ob quantity volatility)))"
proof (intro conjI impI)
  assume "asks ob = [] \<or> bids ob = []"
  then show "MarketImpactModel_calculate ob quantity volatility
        = ([LogError (''Error calculating market impact: '' @ index_error_text)], Inr (Fin 0))"
    using empty_side_market_impact [of ob quantity volatility]
    by (simp add: MarketImpactModel_calculate_def)
next
  assume h: "asks ob \<noteq> [] \<and> bids ob \<noteq> [] \<and> length (asks ob) \<noteq> length (bids ob)
       \<and> length (asks ob) \<noteq> 1 \<and> length (bids ob) \<noteq> 1"
  obtain p1 p2 where i: "np_item00 (asks ob) = Inr p1" "np_item00 (bids ob) = Inr p2"
    using nonempty_side_item h by blast
  have "MarketImpactModel_calculate_temporary_impact (asks ob) (bids ob) quantity
      = Inl (ValueError ''operands could not be broadcast together'')"
    using h by (intro temporary_impact_unequal_levels) auto
  then show "MarketImpactModel_calculate ob quantity volatility
        = ([LogError (''Error calculating market impact: ''
                      @ ''operands could not be broadcast together'')], Inr (Fin 0))"
    by (simp add: MarketImpactModel_calculate_def MarketImpactModel_calculate_try_def i)
next
  assume h: "asks ob \<noteq> [] \<and> bids ob \<noteq> [] \<and> (length (asks ob) = 1 \<or> length (bids ob) = 1)"
  obtain p1 p2 where i: "np_item00 (asks ob) = Inr p1" "np_item00 (bids ob) = Inr p2"
    using nonempty_side_item h by blast
  have t: "MarketImpactModel_calculate_temporary_impact (asks ob) (bids ob) quantity
      = Inr (broadcast_eta ob)"
    using temporary_impact_single_level [of "asks ob" "bids ob" quantity] h
    by (simp add: broadcast_eta_def Let_def)
  show "MarketImpactModel_calculate ob quantity volatility
        = ([], Inr (broadcast_market_impact ob quantity volatility))"
    by (simp add: MarketImpactModel_calculate_def MarketImpactModel_calculate_try_def i t
        MarketImpactModel_calculate_permanent_impact_def
        MarketImpactModel_calculate_optimal_time_def broadcast_market_impact_def
        spec_gamma_def spec_lambda_def spec_T_def fl_mul_div_assoc Let_def)
qed

theorem market_impact_unequal_levels_witness:
  "MarketImpactModel_calculate one_ask_no_bid_book (Fin 1) (Fin 0)
     = ([LogError (''Error calculating market impact: '' @ index_error_text)], Inr (Fin 0))
   \<and> MarketImpactModel_calculate uneven_book (Fin 1) (Fin 0)
     = ([LogError ''Error calculating market impact: operands could not be broadcast together''],
        Inr (Fin 0))
   \<and> MarketImpactModel_calculate single_bid_book (Fin 1) (Fin 0)
     = ([], Inr (broadcast_market_impact single_bid_book (Fin 1) (Fin 0)))"
  using market_impact_unequal_levels [of one_ask_no_bid_book "Fin 1" "Fin 0"]
    market_impact_unequal_levels [of uneven_book "Fin 1" "Fin 0"]
    market_impact_unequal_levels [of single_bid_book "Fin 1" "Fin 0"]
  by (simp add: one_ask_no_bid_book_def uneven_book_def single_bid_book_def)

text \<open>
  Claim C10 as stated gives the default for every book whose sides differ in length. With
  one ask level and two bid levels numpy stretches the single ask price over both bids:
  nothing raises, and the result for quantity 1 and volatility 0 is 101/20, not the
  default.
\<close>

theorem market_impact_single_level_broadcast:
  "MarketImpactModel_calculate single_ask_book (Fin 1) (Fin 0) = ([], Inr (Fin (101 / 20)))"
  by (simp add: market_impact_defs np_defs single_ask_book_def)

subsection \<open>Training\<close>




section \<open>Properties of the cost aggregator\<close>

lemma fee_tiers_table:
  "map_of fee_tiers tier = Some rate \<longleftrightarrow>
     (tier, rate) \<in> {(''Tier 1'', 1/1000), (''Tier 2'', 8/10000), (''Tier 3'', 6/10000)}"
  by (auto simp: fee_tiers_def)

text \<open>
  Claim C9: for every snapshot, quantity and selected fee tier, with the tier table
  \<open>{"Tier 1": 0.001, "Tier 2": 0.0008, "Tier 3": 0.0006}\<close>, the aggregator shows
  \<open>fees = quantity \<times> rate\<close> and
  \<open>net_cost = (slippage + impact) \<times> quantity / 100 + fees\<close>, where \<open>slippage\<close> and
  \<open>impact\<close> are what the slippage and market impact models return for that snapshot and
  quantity (the market impact model is given the volatility input divided by 100).
\<close>

theorem fees_and_net_cost:
  assumes tier: "(fee_tier_combo win, rate)
                   \<in> {(''Tier 1'', 1/1000), (''Tier 2'', 8/10000), (''Tier 3'', 6/10000)}"
  shows "\<exists>lg1 slippage lg2 impact win'.
           SlippageModel_calculate (slippage_model win) data (quantity_spin win)
             = (lg1, Inr slippage)
         \<and> MarketImpactModel_calculate data (quantity_spin win)
               (fl_div (volatility_spin win) (Fin 100)) = (lg2, Inr impact)
         \<and> MainWindow_on_orderbook_update data win = (win', None)
         \<and> fees_label win' = fl_mul (quantity_spin win) (Fin rate)
         \<and> net_cost_label win'
             = fl_add (fl_div (fl_mul (fl_add slippage impact) (quantity_spin win)) (Fin 100))
                      (fl_mul (quantity_spin win) (Fin rate))"
proof -
  from tier have rate: "map_of fee_tiers (fee_tier_combo win) = Some rate"
    unfolding fee_tiers_table .
  obtain lg1 slippage where s:
    "SlippageModel_calculate (slippage_model win) data (quantity_spin win) = (lg1, Inr slippage)"
    using slippage_calculate_returns by blast
  obtain lg2 impact where i:
    "MarketImpactModel_calculate data (quantity_spin win)
       (fl_div (volatility_spin win) (Fin 100)) = (lg2, Inr impact)"
    using market_impact_calculate_returns by blast
  obtain lg3 mt where m:
    "MakerTakerModel_calculate (maker_taker_model win) data (quantity_spin win) = (lg3, Inr mt)"
    using maker_taker_calculate_returns by blast
  have "\<exists>win'. MainWindow_on_orderbook_update data win = (win', None)
         \<and> fees_label win' = fl_mul (quantity_spin win) (Fin rate)
         \<and> net_cost_label win'
             = fl_add (fl_div (fl_mul (fl_add slippage impact) (quantity_spin win)) (Fin 100))
                      (fl_mul (quantity_spin win) (Fin rate))"
    by (cases "processing_time data")
      (simp_all add: MainWindow_on_orderbook_update_def MainWindow_on_orderbook_update_try_def
        MainWindow_calculate_fees_def rate s i m Let_def)
  with s i show ?thesis by blast
qed

theorem fees_and_net_cost_witness:
  "\<exists>lg1 slippage lg2 impact win'.
           SlippageModel_calculate SlippageModel_init scenario_snapshot (Fin 500)
             = (lg1, Inr slippage)
         \<and> MarketImpactModel_calculate scenario_snapshot (Fin 500) (Fin (1/100))
             = (lg2, Inr impact)
         \<and> MainWindow_on_orderbook_update scenario_snapshot scenario_window = (win', None)
         \<and> fees_label win' = Fin (2/5)
         \<and> net_cost_label win'
             = fl_add (fl_div (fl_mul (fl_add slippage impact) (Fin 500)) (Fin 100)) (Fin (2/5))"
  using fees_and_net_cost [of scenario_window "8/10000" scenario_snapshot]
  by (simp add: scenario_window_def)

section \<open>Properties of the streaming client\<close>

subsection \<open>Reconnection backoff\<close>

lemma sleeps_append: "sleeps (a @ b) = sleeps a @ sleeps b"
  by (induction a rule: sleeps.induct) auto

lemma backoff_step: "min (min (2 ^ k) 30 * 2) 30 = min (2 ^ Suc k) (30::nat)"
  by (cases "(2::nat) ^ k \<le> 30") (auto simp: min_def)

lemma reconnect_loop_failures:
  fixes result :: "'t event list \<times> connect_result list \<times> reconnect_status"
    and result' :: "'t event list \<times> connect_result list \<times> reconnect_status"
  assumes "result = reconnect_loop True (min (2 ^ j) 30) (map ConnectRaises es @ rest)"
    and "result' = reconnect_loop True (min (2 ^ (j + length es)) 30) rest"
  shows "sleeps (fst result)
           = map (\<lambda>k. min (2 ^ (j + k)) 30) [0..<length es] @ sleeps (fst result')
         \<and> snd result = snd result'"
  using assms
proof (induction es arbitrary: j result)
  case Nil
  then show ?case by simp
next
  case (Cons e es)
  have "[0..<Suc (length es)] = 0 # map Suc [0..<length es]"
    by (simp add: upt_conv_Cons map_Suc_upt del: upt_Suc)
  then have shift: "map (\<lambda>k. min (2 ^ (j + k)) (30::nat)) [0..<Suc (length es)]
      = min (2 ^ j) 30 # map (\<lambda>k. min (2 ^ (Suc j + k)) 30) [0..<length es]"
    by (simp add: comp_def del: upt_Suc)
  define r :: "'t event list \<times> connect_result list \<times> reconnect_status"
    where "r = reconnect_loop True (min (2 ^ Suc j) 30) (map ConnectRaises es @ rest)"
  have ih: "sleeps (fst r)
           = map (\<lambda>k. min (2 ^ (Suc j + k)) 30) [0..<length es] @ sleeps (fst result')
         \<and> snd r = snd result'"
    using Cons.IH [of r "Suc j"] Cons.prems(2) by (simp add: r_def)
  have "result = (case r of (tr, answers', st) \<Rightarrow>
          ([Log (LogInfo (''Attempting to reconnect in '' @ str_nat (min (2 ^ j) 30)
                  @ '' seconds...'')),
            Sleep (min (2 ^ j) 30), Connect,
            Log (LogError (''Reconnection failed: '' @ exn_str e))] @ tr, answers', st))"
    using Cons.prems(1) by (simp add: r_def backoff_step del: power_Suc)
  with ih show ?case
    by (simp add: shift split: prod.splits del: upt_Suc power_Suc)
qed

lemma reconnect_loop_pending:
  "reconnect_loop True d [] =
     ([Log (LogInfo (''Attempting to reconnect in '' @ str_nat d @ '' seconds...'')),
       Sleep d, Connect], [], AwaitingConnect)"
  by simp

lemma reconnect_success:
  assumes "running c"
  shows "sleeps (fst (WebSocketClient_reconnect c (map ConnectRaises es @ ConnectOk # rest)))
           = backoff_delays (Suc (length es))
         \<and> snd (WebSocketClient_reconnect c (map ConnectRaises es @ ConnectOk # rest))
           = (rest, Reconnected)"
  using reconnect_loop_failures [OF refl refl, of 0 es "ConnectOk # rest"] assms
  by (simp add: WebSocketClient_reconnect_def backoff_delays_def)

lemma reconnect_pending:
  assumes "running c"
  shows "sleeps (fst (WebSocketClient_reconnect c (map ConnectRaises es)))
           = backoff_delays (Suc (length es))
         \<and> snd (WebSocketClient_reconnect c (map ConnectRaises es)) = ([], AwaitingConnect)"
  using reconnect_loop_failures [OF refl refl, of 0 es "[]"] assms
  by (simp add: WebSocketClient_reconnect_def backoff_delays_def)

lemma closed_then_reconnected:
  assumes run: "running c"
  shows "\<exists>tr. sleeps tr = backoff_delays (Suc (length es)) \<and>
     WebSocketClient_process_messages lib c (RecvRaises ConnectionClosed # rs)
        (map ConnectRaises es @ ConnectOk # rest) w
     = (case WebSocketClient_process_messages lib c rs rest w of
          (w', tr', r) \<Rightarrow> (w', tr @ tr', r))"
proof -
  obtain tr2 where r: "WebSocketClient_reconnect c (map ConnectRaises es @ ConnectOk # rest)
      = (tr2, rest, Reconnected)" and s: "sleeps tr2 = backoff_delays (Suc (length es))"
    using reconnect_success [OF run, of es rest]
    by (cases "WebSocketClient_reconnect c (map ConnectRaises es @ ConnectOk # rest)") auto
  have "sleeps ([Log (LogWarning ''WebSocket connection closed'')] @ tr2)
      = backoff_delays (Suc (length es))"
    using s by simp
  moreover have "WebSocketClient_process_messages lib c (RecvRaises ConnectionClosed # rs)
        (map ConnectRaises es @ ConnectOk # rest) w
     = (case WebSocketClient_process_messages lib c rs rest w of
          (w', tr', r) \<Rightarrow> (w', ([Log (LogWarning ''WebSocket connection closed'')] @ tr2) @ tr', r))"
    using run r by (simp add: process_message_try_def split: prod.splits)
  ultimately show ?thesis by blast
qed

text \<open>
  Claim C3: while \<open>running\<close> is true, after \<open>N\<close> consecutive failed attempts of one
  reconnection episode the delays slept so far are \<open>min(2^(k-1), 30)\<close> for
  \<open>k = 1, ..., N + 1\<close> (1, 2, 4, 8, 16, 30, 30, ...), the loop has not given up and the
  next attempt is pending; when the next attempt succeeds \<open>_reconnect\<close> returns; and a
  second disconnection after a successful reconnect starts again at delay 1.
\<close>

theorem reconnect_backoff:
  assumes run: "running c"
  shows "sleeps (fst (WebSocketClient_reconnect c (map ConnectRaises es)))
           = backoff_delays (Suc (length es))
       \<and> snd (WebSocketClient_reconnect c (map ConnectRaises es)) = ([], AwaitingConnect)
       \<and> sleeps (fst (WebSocketClient_reconnect c (map ConnectRaises es @ ConnectOk # rest)))
           = backoff_delays (Suc (length es))
       \<and> snd (WebSocketClient_reconnect c (map ConnectRaises es @ ConnectOk # rest))
           = (rest, Reconnected)
       \<and> (\<exists>tr. WebSocketClient_process_messages lib c
                 [RecvRaises ConnectionClosed, RecvRaises ConnectionClosed]
                 (map ConnectRaises es @ ConnectOk # map ConnectRaises es' @ ConnectOk # rest) w
               = (w, tr, rest, AwaitingRecv)
             \<and> sleeps tr = backoff_delays (Suc (length es)) @ backoff_delays (Suc (length es')))
       \<and> (0 < n \<longrightarrow> backoff_delays n ! (n - 1) = min (2 ^ (n - 1)) 30)"
proof -
  obtain tr1 where t1: "sleeps tr1 = backoff_delays (Suc (length es))" and
    p1: "WebSocketClient_process_messages lib c
           [RecvRaises ConnectionClosed, RecvRaises ConnectionClosed]
           (map ConnectRaises es @ ConnectOk # map ConnectRaises es' @ ConnectOk # rest) w
     = (case WebSocketClient_process_messages lib c [RecvRaises ConnectionClosed]
               (map ConnectRaises es' @ ConnectOk # rest) w of
          (w', tr', r) \<Rightarrow> (w', tr1 @ tr', r))"
    using closed_then_reconnected [OF run] by blast
  obtain tr2 where t2: "sleeps tr2 = backoff_delays (Suc (length es'))" and
    p2: "WebSocketClient_process_messages lib c [RecvRaises ConnectionClosed]
           (map ConnectRaises es' @ ConnectOk # rest) w
     = (case WebSocketClient_process_messages lib c [] rest w of
          (w', tr', r) \<Rightarrow> (w', tr2 @ tr', r))"
    using closed_then_reconnected [OF run] by blast
  have e: "WebSocketClient_process_messages lib c [] rest w = (w, [], rest, AwaitingRecv)"
    using run by simp
  have "WebSocketClient_process_messages lib c
           [RecvRaises ConnectionClosed, RecvRaises ConnectionClosed]
           (map ConnectRaises es @ ConnectOk # map ConnectRaises es' @ ConnectOk # rest) w
        = (w, tr1 @ tr2, rest, AwaitingRecv)"
    by (simp only: p1 p2 e prod.case append_Nil2)
  moreover have "sleeps (tr1 @ tr2)
      = backoff_delays (Suc (length es)) @ backoff_delays (Suc (length es'))"
    by (simp add: sleeps_append t1 t2)
  moreover have "0 < n \<longrightarrow> backoff_delays n ! (n - 1) = min (2 ^ (n - 1)) 30"
    by (auto simp: backoff_delays_def)
  ultimately show ?thesis
    using reconnect_pending [OF run, of es] reconnect_success [OF run, of es rest]
    by blast
qed

theorem reconnect_backoff_witness:
  "sleeps (fst (WebSocketClient_reconnect connected_client
       (map ConnectRaises (replicate 6 (OtherException ''refused'')))))
     = [1, 2, 4, 8, 16, 30, 30]
   \<and> (\<exists>tr. WebSocketClient_process_messages empty_lib connected_client
                 [RecvRaises ConnectionClosed, RecvRaises ConnectionClosed]
                 (map ConnectRaises (replicate 6 (OtherException ''refused'')) @ ConnectOk #
                  map ConnectRaises [OtherException ''refused''] @ ConnectOk # []) 0
               = (0, tr, [], AwaitingRecv)
             \<and> sleeps tr = [1, 2, 4, 8, 16, 30, 30] @ [1, 2])"
  using reconnect_backoff [of connected_client "replicate 6 (OtherException ''refused'')"
       "[]" empty_lib "[OtherException ''refused'']" 0 7]
  by (simp add: connected_client_def backoff_delays_def upt_rec)

subsection \<open>Malformed frames and failing subscribers\<close>

lemma py_str_eq_iff [simp]: "py_str a = py_str b \<longleftrightarrow> a = b"
  by (simp add: py_str_def inj_map_eq_map inj_on_def)

lemma of_char_Z: "of_char c = (90::nat) \<longleftrightarrow> c = CHR ''Z''"
proof -
  have "of_char c = (of_char CHR ''Z'' :: nat) \<longleftrightarrow> c = CHR ''Z''"
    by (rule of_char_eq_iff)
  then show ?thesis by simp
qed

lemma replace_Z_py_str [simp]:
  "replace_Z (py_str s)
     = py_str (concat (map (\<lambda>c. if c = CHR ''Z'' then ''+00:00'' else [c]) s))"
  by (induction s) (simp_all add: replace_Z_def py_str_def of_char_Z)























text \<open>
  Two of the rejections: a dictionary without one of the required fields, and a level
  whose price is a string that \<open>float\<close> does not accept.
\<close>

lemma check_required_missing:
  assumes "f \<in> set fs" and "py_str f \<notin> set (map fst kvs)"
  shows "\<exists>g. check_required (JObj kvs) fs = Inl (ValueError (''Missing required field: '' @ g))"
  using assms by (induction fs) auto

lemma missing_field_rejected:
  assumes "f \<in> set required_fields" and "py_str f \<notin> set (map fst kvs)"
  shows "\<exists>g. WebSocketClient_process_orderbook_try lib (JObj kvs)
               = Inl (ValueError (''Missing required field: '' @ g))"
proof -
  obtain g where "check_required (JObj kvs) required_fields
      = Inl (ValueError (''Missing required field: '' @ g))"
    using check_required_missing [OF assms] by (elim exE)
  then show ?thesis
    by (simp add: WebSocketClient_process_orderbook_try_def)
qed

lemma unconvertible_number_rejected:
  assumes "conv s = None"
  shows "convert_levels conv (JArr (JArr [JStr s, qty] # items))
           = Inl (ValueError ''could not convert string to float'')"
  using assms by (simp add: convert_levels_def unpack_pair_def)


lemma scenario_frame_processed:
  "WebSocketClient_process_orderbook_try scenario_lib scenario_json = Inr scenario_snapshot"
  by (simp add: WebSocketClient_process_orderbook_try_def
      scenario_lib_def scenario_json_def required_fields_def parse_timestamp_def
      convert_levels_def unpack_pair_def other_fields_def scenario_snapshot_def)



text \<open>
  Claim C1: if one subscriber raises during the dispatch of a snapshot, the error is caught
  and logged, the receive loop goes on, and the remaining registered subscribers are
  still invoked with that snapshot. The loop is commented "Notify all registered
  callbacks" and \<open>register_callback\<close> promises a call "with each new orderbook update",
  but the \<open>for\<close> loop over the subscribers is inside the one \<open>try\<close> block of the
  iteration. With a raising subscriber registered first and a counting subscriber second,
  two valid frames are each dispatched to position 0 only: the error is logged and the
  loop goes on, but position 1 is never called and its count stays 0.
\<close>

theorem later_subscribers_skipped:
  "WebSocketClient_process_messages scenario_lib
     (WebSocketClient_register_callback
        (WebSocketClient_register_callback connected_client failing_subscriber)
        counting_subscriber)
     [Message ''scenario frame'', Message ''scenario frame''] [] 0
   = (0, [Invoke 0 scenario_snapshot,
          Log (LogError ''Error processing message: subscriber failed''),
          Invoke 0 scenario_snapshot,
          Log (LogError ''Error processing message: subscriber failed'')], [], AwaitingRecv)"
  using scenario_frame_processed
  by (simp add: connected_client_def scenario_lib_def counting_subscriber_def
      failing_subscriber_def process_message_try_def WebSocketClient_process_orderbook_def
      WebSocketClient_register_callback_def)


end
